theory Spec2Isabelle
  imports Main "HOL-Library.AList"
begin

section \<open>Data model (internal/models/models.go)\<close>

text \<open>
  A \<open>time.Time\<close> is kept as an integer instant; the zero \<open>time.Time\<close> is \<open>0\<close>.
  A \<open>time.Duration\<close> is a signed 64-bit count of nanoseconds: \<open>int64\<close> is the value a
  product or a conversion leaves in 64 bits (two's complement wrap-around).
\<close>

type_synonym time = int

definition int64 :: "int \<Rightarrow> int" where
  "int64 x = (x + 9223372036854775808) mod 18446744073709551616 - 9223372036854775808"

record Post =
  UserID :: int
  ID :: int
  Title :: string
  Body :: string

text \<open>
  \<open>TransformedPost\<close> embeds \<open>Post\<close>; the composite literal of the source names the
  embedded struct as the field \<open>Post\<close>.
\<close>

record TransformedPost =
  Post :: Post
  IngestedAt :: time
  Source :: string

record IngestionStatus =
  LastSuccessfulRun :: time
  LastAttempt :: time
  Status :: string
  ErrorMessage :: string
  RecordsIngested :: int

section \<open>Errors\<close>

text \<open>
  Go errors as values. \<open>Wrap p err\<close> is \<open>fmt.Errorf("p: %w", err)\<close> for a non-nil
  \<open>err\<close>; \<open>WrapN p n err\<close> is \<open>fmt.Errorf("p %d: %w", n, err)\<close>;
  \<open>FailedAfterAttempts n cause\<close> is \<open>fmt.Errorf("failed after %d attempts: %w", n, lastErr)\<close>,
  whose wrapped \<open>lastErr\<close> may be nil (\<open>None\<close>); \<open>External m\<close> is an error produced by a
  library or a remote service.
\<close>

datatype error =
    Canceled
  | DeadlineExceeded
  | External string
  | Wrap string error
  | WrapN string int error
  | FailedAfterAttempts int "error option"
  | ApiReturnedStatus int
  | UnsupportedStorageType string

section \<open>Configuration (internal/config)\<close>

record StorageConfig =
  Type :: string
  Region :: string
  TableName :: string
  Endpoint :: string
  MongoDBURI :: string
  PostgresURI :: string

record IngestionConfig =
  APIEndpoint :: string
  Interval :: int
  Timeout :: int
  RetryCount :: int

record ServerConfig =
  Port :: int

record Config =
  Storage :: StorageConfig
  Ingestion :: IngestionConfig
  Server :: ServerConfig

text \<open>
  What \<open>Load\<close> reads from outside the repository: the process environment
  (\<open>os.Getenv\<close>, which yields the empty string for an unset variable) and the two
  standard-library parsers, taken as parameters.
\<close>

record runtime =
  Getenv :: "string \<Rightarrow> string"
  Atoi :: "string \<Rightarrow> error + int"
  ParseDuration :: "string \<Rightarrow> error + int"

definition Minute :: int where
  "Minute = 60000000000"

definition Second :: int where
  "Second = 1000000000"

definition getEnv :: "runtime \<Rightarrow> string \<Rightarrow> string \<Rightarrow> string" where
  "getEnv rt key defaultValue =
     (let v = Getenv rt key in if v \<noteq> [] then v else defaultValue)"

definition getEnvInt :: "runtime \<Rightarrow> string \<Rightarrow> int \<Rightarrow> int" where
  "getEnvInt rt key defaultValue =
     (let v = Getenv rt key in
      if v \<noteq> [] then
        (case Atoi rt v of Inr intVal \<Rightarrow> intVal | Inl err \<Rightarrow> defaultValue)
      else defaultValue)"

definition getEnvDuration :: "runtime \<Rightarrow> string \<Rightarrow> int \<Rightarrow> int" where
  "getEnvDuration rt key defaultValue =
     (let v = Getenv rt key in
      if v \<noteq> [] then
        (case ParseDuration rt v of Inr duration \<Rightarrow> duration | Inl err \<Rightarrow> defaultValue)
      else defaultValue)"

text \<open>\<open>Load\<close> always returns a nil error, so the model returns the configuration alone.\<close>

definition Load :: "runtime \<Rightarrow> Config" where
  "Load rt =
     \<lparr> Storage =
         \<lparr> Type = getEnv rt ''STORAGE_TYPE'' ''dynamodb'',
           Region = getEnv rt ''AWS_REGION'' ''us-west-2'',
           TableName = getEnv rt ''TABLE_NAME'' ''ingested_data'',
           Endpoint = getEnv rt ''DYNAMODB_ENDPOINT'' [],
           MongoDBURI = getEnv rt ''MONGODB_URI'' [],
           PostgresURI = getEnv rt ''POSTGRES_URI'' [] \<rparr>,
       Ingestion =
         \<lparr> APIEndpoint = getEnv rt ''API_ENDPOINT'' ''https://jsonplaceholder.typicode.com/posts'',
           Interval = getEnvDuration rt ''INGESTION_INTERVAL'' (5 * Minute),
           Timeout = getEnvDuration rt ''API_TIMEOUT'' (30 * Second),
           RetryCount = getEnvInt rt ''RETRY_COUNT'' 3 \<rparr>,
       Server = \<lparr> Port = getEnvInt rt ''SERVER_PORT'' 8080 \<rparr> \<rparr>"

section \<open>The storage interface (internal/storage/storage.go)\<close>

text \<open>
  The Go interface \<open>Storage\<close> is a record of the six methods over a backend state \<open>'b\<close>;
  every method returns its result with the backend state it leaves behind. A nil
  \<open>error\<close> is \<open>None\<close>; a \<open>(value, error)\<close> pair is a sum.
\<close>

record 'b Storage =
  StorePosts :: "TransformedPost list \<Rightarrow> 'b \<Rightarrow> error option \<times> 'b"
  GetPosts :: "int \<Rightarrow> int \<Rightarrow> 'b \<Rightarrow> (error + TransformedPost list) \<times> 'b"
  GetPostByID :: "int \<Rightarrow> 'b \<Rightarrow> (error + TransformedPost option) \<times> 'b"
  UpdateIngestionStatus :: "IngestionStatus \<Rightarrow> 'b \<Rightarrow> error option \<times> 'b"
  GetIngestionStatus :: "'b \<Rightarrow> (error + IngestionStatus) \<times> 'b"
  Close :: "'b \<Rightarrow> error option \<times> 'b"

text \<open>
  \<open>NewStorage\<close> switches on the configured type and hands the configuration to the
  constructor of that backend; the three constructors are parameters.
\<close>

definition NewStorage ::
  "(StorageConfig \<Rightarrow> error + 's) \<Rightarrow> (StorageConfig \<Rightarrow> error + 's) \<Rightarrow>
   (StorageConfig \<Rightarrow> error + 's) \<Rightarrow> StorageConfig \<Rightarrow> error + 's" where
  "NewStorage newDynamoDBStorage newMongoDBStorage newPostgreSQLStorage cfg =
     (if Type cfg = ''dynamodb'' then newDynamoDBStorage cfg
      else if Type cfg = ''mongodb'' then newMongoDBStorage cfg
      else if Type cfg = ''postgresql'' then newPostgreSQLStorage cfg
      else Inl (UnsupportedStorageType (Type cfg)))"

section \<open>The DynamoDB backend\<close>

text \<open>
  The remote table service as the client sees it: the tables that exist, each a list of
  items under their key attribute, in the order a scan returns them. A put replaces the
  item of an equal key or adds a new one. A request that names a table which does not
  exist is answered with \<open>ResourceNotFoundException\<close>; creating a table that exists is
  answered with \<open>ResourceInUseException\<close>. Each request may also fail for reasons outside
  the program (\<open>fault\<close> scripts the outcome of the n-th request; \<open>issued\<close> counts the
  requests).
\<close>

datatype attr = N int | S string

datatype item = PostItem TransformedPost | StatusItem IngestionStatus

record dynamodb =
  tables :: "string \<rightharpoonup> (attr \<times> item) list"
  fault :: "nat \<Rightarrow> error option"
  issued :: nat

record DynamoDBStorage =
  client :: dynamodb
  tableName :: string

definition ResourceNotFound :: error where
  "ResourceNotFound = External ''ResourceNotFoundException''"

definition ResourceInUse :: error where
  "ResourceInUse = External ''ResourceInUseException''"

definition DescribeTable :: "string \<Rightarrow> dynamodb \<Rightarrow> error option \<times> dynamodb" where
  "DescribeTable t c =
     (let c1 = c\<lparr>issued := issued c + 1\<rparr> in
      case fault c (issued c) of
        Some err \<Rightarrow> (Some err, c1)
      | None \<Rightarrow>
          (case tables c t of
             None \<Rightarrow> (Some ResourceNotFound, c1)
           | Some rows \<Rightarrow> (None, c1)))"

definition CreateTable :: "string \<Rightarrow> dynamodb \<Rightarrow> error option \<times> dynamodb" where
  "CreateTable t c =
     (let c1 = c\<lparr>issued := issued c + 1\<rparr> in
      case fault c (issued c) of
        Some err \<Rightarrow> (Some err, c1)
      | None \<Rightarrow>
          (case tables c t of
             Some rows \<Rightarrow> (Some ResourceInUse, c1)
           | None \<Rightarrow> (None, c1\<lparr>tables := (tables c1)(t \<mapsto> [])\<rparr>)))"

text \<open>
  A table is there as soon as its creation has succeeded, so the waiter is the one
  \<open>DescribeTable\<close> request that settles it.
\<close>

definition WaitUntilTableExists :: "string \<Rightarrow> dynamodb \<Rightarrow> error option \<times> dynamodb" where
  "WaitUntilTableExists t c = DescribeTable t c"

definition PutItemWithContext :: "string \<Rightarrow> attr \<Rightarrow> item \<Rightarrow> dynamodb \<Rightarrow> error option \<times> dynamodb" where
  "PutItemWithContext t k it c =
     (let c1 = c\<lparr>issued := issued c + 1\<rparr> in
      case fault c (issued c) of
        Some err \<Rightarrow> (Some err, c1)
      | None \<Rightarrow>
          (case tables c t of
             None \<Rightarrow> (Some ResourceNotFound, c1)
           | Some rows \<Rightarrow> (None, c1\<lparr>tables := (tables c1)(t \<mapsto> AList.update k it rows)\<rparr>)))"

definition GetItemWithContext :: "string \<Rightarrow> attr \<Rightarrow> dynamodb \<Rightarrow> (error + item option) \<times> dynamodb" where
  "GetItemWithContext t k c =
     (let c1 = c\<lparr>issued := issued c + 1\<rparr> in
      case fault c (issued c) of
        Some err \<Rightarrow> (Inl err, c1)
      | None \<Rightarrow>
          (case tables c t of
             None \<Rightarrow> (Inl ResourceNotFound, c1)
           | Some rows \<Rightarrow> (Inr (map_of rows k), c1)))"

text \<open>
  A scan with \<open>Limit\<close> evaluates at most that many items; the client library refuses a
  limit below 1 before sending the request.
\<close>

definition ScanWithContext :: "string \<Rightarrow> int \<Rightarrow> dynamodb \<Rightarrow> (error + item list) \<times> dynamodb" where
  "ScanWithContext t limit c =
     (if limit < 1 then (Inl (External ''InvalidParameter: ScanInput.Limit''), c)
      else
        (let c1 = c\<lparr>issued := issued c + 1\<rparr> in
         case fault c (issued c) of
           Some err \<Rightarrow> (Inl err, c1)
         | None \<Rightarrow>
             (case tables c t of
                None \<Rightarrow> (Inl ResourceNotFound, c1)
              | Some rows \<Rightarrow> (Inr (take (nat limit) (map snd rows)), c1))))"

text \<open>
  \<open>ensureTable\<close>: any error of \<open>DescribeTable\<close> counts as "no such table" and leads to
  the creation of the table named \<open>tableName\<close>, the only table it ever creates.
\<close>

definition ensureTable :: "DynamoDBStorage \<Rightarrow> error option \<times> DynamoDBStorage" where
  "ensureTable d =
     (case DescribeTable (tableName d) (client d) of
        (None, c1) \<Rightarrow> (None, d\<lparr>client := c1\<rparr>)
      | (Some err, c1) \<Rightarrow>
          (case CreateTable (tableName d) c1 of
             (Some err', c2) \<Rightarrow> (Some (Wrap ''failed to create table'' err'), d\<lparr>client := c2\<rparr>)
           | (None, c2) \<Rightarrow>
               (case WaitUntilTableExists (tableName d) c2 of
                  (r, c3) \<Rightarrow> (r, d\<lparr>client := c3\<rparr>))))"

text \<open>
  \<open>NewDynamoDBStorage\<close>: the outcome of \<open>session.NewSession\<close> and the remote service
  the client will talk to are parameters.
\<close>

definition NewDynamoDBStorage :: "error option \<Rightarrow> dynamodb \<Rightarrow> StorageConfig \<Rightarrow> error + DynamoDBStorage" where
  "NewDynamoDBStorage newSession c cfg =
     (case newSession of
        Some err \<Rightarrow> Inl (Wrap ''failed to create AWS session'' err)
      | None \<Rightarrow>
          (case ensureTable \<lparr> client = c, tableName = TableName cfg \<rparr> of
             (Some err, d) \<Rightarrow> Inl (Wrap ''failed to ensure table exists'' err)
           | (None, d) \<Rightarrow> Inr d))"

text \<open>
  \<open>dynamodbattribute.MarshalMap\<close> and \<open>UnmarshalMap\<close>: an item remembers the struct it
  was marshalled from. A stored status item carries the string attribute \<open>id\<close>, which
  does not fit the integer \<open>id\<close> of a post, so unmarshalling it into a post fails. A
  post item shares no attribute name with \<open>IngestionStatus\<close>: unmarshalling it into a
  status ignores every attribute and yields the zero status with no error.
\<close>

definition MarshalPost :: "TransformedPost \<Rightarrow> error + item" where
  "MarshalPost post = Inr (PostItem post)"

definition MarshalStatus :: "IngestionStatus \<Rightarrow> error + item" where
  "MarshalStatus status = Inr (StatusItem status)"

definition UnmarshalPost :: "item \<Rightarrow> error + TransformedPost" where
  "UnmarshalPost it =
     (case it of PostItem post \<Rightarrow> Inr post
      | StatusItem status \<Rightarrow> Inl (External ''UnmarshalTypeError''))"

definition zeroIngestionStatus :: IngestionStatus where
  "zeroIngestionStatus =
     \<lparr> LastSuccessfulRun = 0, LastAttempt = 0, Status = [], ErrorMessage = [],
       RecordsIngested = 0 \<rparr>"

definition UnmarshalStatus :: "item \<Rightarrow> error + IngestionStatus" where
  "UnmarshalStatus it =
     (case it of StatusItem status \<Rightarrow> Inr status
      | PostItem post \<Rightarrow> Inr zeroIngestionStatus)"

fun UnmarshalListOfMaps :: "item list \<Rightarrow> error + TransformedPost list" where
  "UnmarshalListOfMaps [] = Inr []"
| "UnmarshalListOfMaps (it # its) =
     (case UnmarshalPost it of
        Inl err \<Rightarrow> Inl err
      | Inr post \<Rightarrow>
          (case UnmarshalListOfMaps its of
             Inl err \<Rightarrow> Inl err
           | Inr posts \<Rightarrow> Inr (post # posts)))"

text \<open>\<open>StorePosts\<close>: one put per post, stopping at the first failure.\<close>

fun DynamoDB_StorePosts :: "TransformedPost list \<Rightarrow> DynamoDBStorage \<Rightarrow> error option \<times> DynamoDBStorage" where
  "DynamoDB_StorePosts [] d = (None, d)"
| "DynamoDB_StorePosts (post # posts) d =
     (case MarshalPost post of
        Inl err \<Rightarrow> (Some (WrapN ''failed to marshal post'' (ID (Post post)) err), d)
      | Inr it \<Rightarrow>
          (case PutItemWithContext (tableName d) (N (ID (Post post))) it (client d) of
             (Some err, c1) \<Rightarrow>
               (Some (WrapN ''failed to store post'' (ID (Post post)) err), d\<lparr>client := c1\<rparr>)
           | (None, c1) \<Rightarrow> DynamoDB_StorePosts posts (d\<lparr>client := c1\<rparr>)))"

text \<open>\<open>GetPosts\<close>: the scan input carries the table name and the limit only.\<close>

definition DynamoDB_GetPosts ::
  "int \<Rightarrow> int \<Rightarrow> DynamoDBStorage \<Rightarrow> (error + TransformedPost list) \<times> DynamoDBStorage" where
  "DynamoDB_GetPosts limit offset d =
     (case ScanWithContext (tableName d) limit (client d) of
        (Inl err, c1) \<Rightarrow> (Inl (Wrap ''failed to scan posts'' err), d\<lparr>client := c1\<rparr>)
      | (Inr its, c1) \<Rightarrow>
          (case UnmarshalListOfMaps its of
             Inl err \<Rightarrow> (Inl (Wrap ''failed to unmarshal posts'' err), d\<lparr>client := c1\<rparr>)
           | Inr posts \<Rightarrow> (Inr posts, d\<lparr>client := c1\<rparr>)))"

definition DynamoDB_GetPostByID ::
  "int \<Rightarrow> DynamoDBStorage \<Rightarrow> (error + TransformedPost option) \<times> DynamoDBStorage" where
  "DynamoDB_GetPostByID n d =
     (case GetItemWithContext (tableName d) (N n) (client d) of
        (Inl err, c1) \<Rightarrow> (Inl (WrapN ''failed to get post'' n err), d\<lparr>client := c1\<rparr>)
      | (Inr None, c1) \<Rightarrow> (Inr None, d\<lparr>client := c1\<rparr>)
      | (Inr (Some it), c1) \<Rightarrow>
          (case UnmarshalPost it of
             Inl err \<Rightarrow> (Inl (Wrap ''failed to unmarshal post'' err), d\<lparr>client := c1\<rparr>)
           | Inr post \<Rightarrow> (Inr (Some post), d\<lparr>client := c1\<rparr>)))"

text \<open>
  The status record lives in the table named \<open>tableName + "_status"\<close> under the fixed
  key \<open>"ingestion_status"\<close>. \<open>UpdateIngestionStatus\<close> returns the put's error unwrapped.
\<close>

definition DynamoDB_UpdateIngestionStatus ::
  "IngestionStatus \<Rightarrow> DynamoDBStorage \<Rightarrow> error option \<times> DynamoDBStorage" where
  "DynamoDB_UpdateIngestionStatus status d =
     (case MarshalStatus status of
        Inl err \<Rightarrow> (Some (Wrap ''failed to marshal ingestion status'' err), d)
      | Inr it \<Rightarrow>
          (case PutItemWithContext (tableName d @ ''_status'') (S ''ingestion_status'') it (client d) of
             (err, c1) \<Rightarrow> (err, d\<lparr>client := c1\<rparr>)))"

definition DynamoDB_GetIngestionStatus ::
  "DynamoDBStorage \<Rightarrow> (error + IngestionStatus) \<times> DynamoDBStorage" where
  "DynamoDB_GetIngestionStatus d =
     (case GetItemWithContext (tableName d @ ''_status'') (S ''ingestion_status'') (client d) of
        (Inl err, c1) \<Rightarrow> (Inl (Wrap ''failed to get ingestion status'' err), d\<lparr>client := c1\<rparr>)
      | (Inr None, c1) \<Rightarrow>
          (Inr \<lparr> LastSuccessfulRun = 0, LastAttempt = 0, Status = ''never_run'',
                 ErrorMessage = [], RecordsIngested = 0 \<rparr>,
           d\<lparr>client := c1\<rparr>)
      | (Inr (Some it), c1) \<Rightarrow>
          (case UnmarshalStatus it of
             Inl err \<Rightarrow> (Inl (Wrap ''failed to unmarshal ingestion status'' err), d\<lparr>client := c1\<rparr>)
           | Inr status \<Rightarrow> (Inr status, d\<lparr>client := c1\<rparr>)))"

definition DynamoDB_Close :: "DynamoDBStorage \<Rightarrow> error option \<times> DynamoDBStorage" where
  "DynamoDB_Close d = (None, d)"

text \<open>The method set of \<open>*DynamoDBStorage\<close>, as a value of the interface.\<close>

definition DynamoDB :: "DynamoDBStorage Storage" where
  "DynamoDB =
     \<lparr> StorePosts = DynamoDB_StorePosts,
       GetPosts = DynamoDB_GetPosts,
       GetPostByID = DynamoDB_GetPostByID,
       UpdateIngestionStatus = DynamoDB_UpdateIngestionStatus,
       GetIngestionStatus = DynamoDB_GetIngestionStatus,
       Close = DynamoDB_Close \<rparr>"

text \<open>
  The status record as stored, independent of whether a request to read it succeeds:
  absent when the status table does not exist or holds no item under the key.
\<close>

definition statusRecord :: "DynamoDBStorage \<Rightarrow> item option" where
  "statusRecord d =
     (case tables (client d) (tableName d @ ''_status'') of
        None \<Rightarrow> None
      | Some rows \<Rightarrow> map_of rows (S ''ingestion_status''))"

section \<open>The ingestion service (internal/ingestion/service.go)\<close>

text \<open>
  Everything the service meets outside its own code is scripted by an environment:
  the n-th HTTP exchange, the JSON decoder, which case the n-th \<open>select\<close> of the backoff
  wait and of the ticker loop takes, the error the context reports once it is done, and
  the n-th reading of the clock.
\<close>

datatype body = Unreadable error | Bytes string

record response =
  StatusCode :: int
  Body :: body

datatype exchange = NoRequest error | NoResponse error | Response response

datatype selected = CtxDone | TimerFired

record env =
  http :: "nat \<Rightarrow> exchange"
  unmarshal :: "string \<Rightarrow> error + Post list"
  backoff :: "nat \<Rightarrow> selected"
  ticker :: "nat \<Rightarrow> selected"
  ctxErr :: error
  clock :: "nat \<Rightarrow> time"

text \<open>The two lines the service prints, and the calls it can make on the interface.\<close>

datatype line = SuccessfullyIngested int | IngestionError error

datatype call =
    CallStorePosts "TransformedPost list"
  | CallGetPosts int int
  | CallGetPostByID int
  | CallUpdateIngestionStatus IngestionStatus
  | CallGetIngestionStatus
  | CallClose

text \<open>
  The state a run threads through: how many HTTP exchanges, backoff selects, ticker
  selects and clock readings have happened (the indices into the environment's scripts),
  the backoff intervals waited out in full (as durations, oldest first), the printed lines,
  the calls made on the storage interface, and the backend's state.
\<close>

record 'b world =
  requests :: nat
  selects :: nat
  waited :: "int list"
  ticks :: nat
  nows :: nat
  stdout :: "line list"
  calls :: "call list"
  backend :: 'b

record 'b Service =
  config :: IngestionConfig
  storage :: "'b Storage"

text \<open>
  \<open>fetchPostsOnce\<close>: the result of one exchange, by the source's order of checks
  (request creation, transport, status code, body read, decode).
\<close>

definition fetchOutcome :: "env \<Rightarrow> exchange \<Rightarrow> error + Post list" where
  "fetchOutcome e x =
     (case x of
        NoRequest err \<Rightarrow> Inl (Wrap ''failed to create request'' err)
      | NoResponse err \<Rightarrow> Inl (Wrap ''failed to make request'' err)
      | Response resp \<Rightarrow>
          if StatusCode resp \<noteq> 200 then Inl (ApiReturnedStatus (StatusCode resp))
          else
            (case Body resp of
               Unreadable err \<Rightarrow> Inl (Wrap ''failed to read response body'' err)
             | Bytes b \<Rightarrow>
                 (case unmarshal e b of
                    Inl err \<Rightarrow> Inl (Wrap ''failed to unmarshal response'' err)
                  | Inr posts \<Rightarrow> Inr posts)))"

definition fetchPostsOnce :: "env \<Rightarrow> 'b world \<Rightarrow> (error + Post list) \<times> 'b world" where
  "fetchPostsOnce e w =
     (fetchOutcome e (http e (requests w)), w\<lparr>requests := requests w + 1\<rparr>)"

text \<open>
  \<open>fetchPosts\<close>: the \<open>for attempt := 0; attempt < RetryCount; attempt++\<close> loop with its
  \<open>lastErr\<close>. The wait before a retry is \<open>time.Duration(attempt+1) * time.Second\<close>, a
  product in 64 bits: it is \<open>attempt + 1\<close> seconds up to 9223372036 and wraps around
  above. The counter is a Go \<open>int\<close> below \<open>RetryCount\<close>, so \<open>attempt + 1\<close> itself does
  not wrap. The \<open>select\<close> either sees the context done and returns its error, or sees
  the timer fire and goes on.
\<close>

function fetchPosts_loop ::
  "'b Service \<Rightarrow> env \<Rightarrow> int \<Rightarrow> error option \<Rightarrow> 'b world \<Rightarrow> (error + Post list) \<times> 'b world" where
  "fetchPosts_loop s e attempt lastErr w =
     (if attempt < RetryCount (config s) then
        (case fetchPostsOnce e w of
           (Inr posts, w1) \<Rightarrow> (Inr posts, w1)
         | (Inl err, w1) \<Rightarrow>
             if attempt < RetryCount (config s) - 1 then
               (let waitTime = int64 (int64 (attempt + 1) * Second);
                    w2 = w1\<lparr>selects := selects w1 + 1\<rparr>
                in case backoff e (selects w1) of
                     CtxDone \<Rightarrow> (Inl (ctxErr e), w2)
                   | TimerFired \<Rightarrow>
                       fetchPosts_loop s e (attempt + 1) (Some err)
                         (w2\<lparr>waited := waited w2 @ [waitTime]\<rparr>))
             else fetchPosts_loop s e (attempt + 1) (Some err) w1)
      else (Inl (FailedAfterAttempts (RetryCount (config s)) lastErr), w))"
  by pat_completeness auto
termination
  by (relation "measure (\<lambda>(s, e, attempt, lastErr, w). nat (RetryCount (config s) - attempt))") auto

definition fetchPosts :: "'b Service \<Rightarrow> env \<Rightarrow> 'b world \<Rightarrow> (error + Post list) \<times> 'b world" where
  "fetchPosts s e w = fetchPosts_loop s e 0 None w"

text \<open>
  \<open>transformPosts\<close>: one reading of the clock, a slice of \<open>len(posts)\<close> zero values, and
  the \<open>range\<close> loop that assigns position \<open>i\<close>.
\<close>

definition zeroTransformedPost :: TransformedPost where
  "zeroTransformedPost =
     \<lparr> Post = \<lparr> UserID = 0, ID = 0, Title = [], Body = [] \<rparr>, IngestedAt = 0, Source = [] \<rparr>"

definition transformPosts :: "env \<Rightarrow> Post list \<Rightarrow> 'b world \<Rightarrow> TransformedPost list \<times> 'b world" where
  "transformPosts e posts w =
     (let now = clock e (nows w);
          transformed = replicate (length posts) zeroTransformedPost
      in (fold (\<lambda>(i, post) transformed.
                  transformed[i := \<lparr> Post = post, IngestedAt = now, Source = ''placeholder_api'' \<rparr>])
            (enumerate 0 posts) transformed,
          w\<lparr>nows := nows w + 1\<rparr>))"

text \<open>\<open>IngestData\<close>: fetch, transform, store; each failure is wrapped with its step.\<close>

definition IngestData :: "'b Service \<Rightarrow> env \<Rightarrow> 'b world \<Rightarrow> error option \<times> 'b world" where
  "IngestData s e w =
     (case fetchPosts s e w of
        (Inl err, w1) \<Rightarrow> (Some (Wrap ''failed to fetch posts'' err), w1)
      | (Inr posts, w1) \<Rightarrow>
          (case transformPosts e posts w1 of
             (transformedPosts, w2) \<Rightarrow>
               (case StorePosts (storage s) transformedPosts (backend w2) of
                  (r, b) \<Rightarrow>
                    (let w3 = w2\<lparr>calls := calls w2 @ [CallStorePosts transformedPosts],
                                  backend := b\<rparr>
                     in case r of
                          Some err \<Rightarrow> (Some (Wrap ''failed to store posts'' err), w3)
                        | None \<Rightarrow>
                            (None,
                             w3\<lparr>stdout := stdout w3 @
                                  [SuccessfullyIngested (int (length transformedPosts))]\<rparr>)))))"

text \<open>
  \<open>Start\<close>: the initial cycle, then \<open>time.NewTicker(s.config.Interval)\<close>, which panics
  for an interval that is not positive, then the \<open>for { select { ... } }\<close> loop. The
  loop has no exit but the \<open>ctx.Done()\<close> case, so it is a partial function: \<open>None\<close> is
  a run that never returns.
\<close>

datatype exit = Return error | Panic string

partial_function (option) Start_loop ::
  "'b Service \<Rightarrow> env \<Rightarrow> 'b world \<Rightarrow> (exit \<times> 'b world) option" where
  "Start_loop s e w =
     (case ticker e (ticks w) of
        CtxDone \<Rightarrow> Some (Return (ctxErr e), w\<lparr>ticks := ticks w + 1\<rparr>)
      | TimerFired \<Rightarrow>
          (case IngestData s e (w\<lparr>ticks := ticks w + 1\<rparr>) of
             (Some err, w1) \<Rightarrow> Start_loop s e (w1\<lparr>stdout := stdout w1 @ [IngestionError err]\<rparr>)
           | (None, w1) \<Rightarrow> Start_loop s e w1))"

declare Start_loop.simps [code]

definition Start :: "'b Service \<Rightarrow> env \<Rightarrow> 'b world \<Rightarrow> (exit \<times> 'b world) option" where
  "Start s e w =
     (case IngestData s e w of
        (Some err, w1) \<Rightarrow> Some (Return (Wrap ''initial ingestion failed'' err), w1)
      | (None, w1) \<Rightarrow>
          if Interval (config s) \<le> 0
          then Some (Panic ''non-positive interval for NewTicker'', w1)
          else Start_loop s e w1)"

section \<open>The HTTP handler for the post list (internal/server/server.go)\<close>

text \<open>
  \<open>handlePosts\<close> for a GET request: the two query parameters with their defaults, the
  call of \<open>GetPosts\<close>, and the reply (a 500 with the error, or the JSON object with
  \<open>posts\<close>, \<open>count\<close>, \<open>limit\<close> and \<open>offset\<close>).
\<close>

datatype reply =
    InternalServerError error
  | PostsReply "TransformedPost list" int int int

definition queryLimit :: "runtime \<Rightarrow> string \<Rightarrow> int" where
  "queryLimit rt limitStr =
     (if limitStr \<noteq> [] then
        (case Atoi rt limitStr of
           Inr l \<Rightarrow> if l > 0 then l else 10
         | Inl err \<Rightarrow> 10)
      else 10)"

definition queryOffset :: "runtime \<Rightarrow> string \<Rightarrow> int" where
  "queryOffset rt offsetStr =
     (if offsetStr \<noteq> [] then
        (case Atoi rt offsetStr of
           Inr o' \<Rightarrow> if o' \<ge> 0 then o' else 0
         | Inl err \<Rightarrow> 0)
      else 0)"

definition handlePosts :: "runtime \<Rightarrow> 'b Storage \<Rightarrow> string \<Rightarrow> string \<Rightarrow> 'b \<Rightarrow> reply \<times> 'b" where
  "handlePosts rt st limitStr offsetStr b =
     (let limit = queryLimit rt limitStr;
          offset = queryOffset rt offsetStr
      in case GetPosts st limit offset b of
           (Inl err, b1) \<Rightarrow> (InternalServerError (Wrap ''Failed to retrieve posts'' err), b1)
         | (Inr posts, b1) \<Rightarrow> (PostsReply posts (int (length posts)) limit offset, b1))"

text \<open>
  The state one pass through the \<open>ticker.C\<close> case of \<open>Start\<close>'s loop leaves behind: the
  select is taken, a cycle runs, and a failed cycle prints its error.
\<close>

definition tickCycle :: "'b Service \<Rightarrow> env \<Rightarrow> 'b world \<Rightarrow> 'b world" where
  "tickCycle s e w =
     (case IngestData s e (w\<lparr>ticks := ticks w + 1\<rparr>) of
        (Some err, w1) \<Rightarrow> w1\<lparr>stdout := stdout w1 @ [IngestionError err]\<rparr>
      | (None, w1) \<Rightarrow> w1)"

section \<open>Concrete runs\<close>

text \<open>
  The inputs of the repository's tests (internal/ingestion/service\_test.go): a service
  with three attempts, an API that answers 200 with one post or 500, and an empty table.
\<close>

definition testPost1 :: Post where
  "testPost1 = \<lparr> UserID = 1, ID = 1, Title = ''Test Post 1'', Body = ''Test body 1'' \<rparr>"

definition testPost2 :: Post where
  "testPost2 = \<lparr> UserID = 1, ID = 2, Title = ''Test Post 2'', Body = ''Test body 2'' \<rparr>"

definition noTables :: "string \<rightharpoonup> (attr \<times> item) list" where
  "noTables t = None"

definition noFault :: "nat \<Rightarrow> error option" where
  "noFault n = None"

definition fourthFault :: "nat \<Rightarrow> error option" where
  "fourthFault n =
     (if n = 3 then Some (External ''RequestError: send request failed'') else None)"

text \<open>
  A table service that holds no table yet, as the one of the compose file starts, and
  the store that \<open>NewDynamoDBStorage\<close> sets up on it.
\<close>

definition noService :: dynamodb where
  "noService = \<lparr> tables = noTables, fault = noFault, issued = 0 \<rparr>"

definition freshStore :: DynamoDBStorage where
  "freshStore =
     \<lparr> client = \<lparr> tables = noTables(''ingested_data'' \<mapsto> []), fault = noFault, issued = 3 \<rparr>,
       tableName = ''ingested_data'' \<rparr>"

text \<open>
  The same on a service whose fourth request fails: the three requests of
  \<open>ensureTable\<close> go through, the first request after them does not.
\<close>

definition flakyService :: dynamodb where
  "flakyService = \<lparr> tables = noTables, fault = fourthFault, issued = 0 \<rparr>"

definition flakyStore :: DynamoDBStorage where
  "flakyStore =
     \<lparr> client = \<lparr> tables = noTables(''ingested_data'' \<mapsto> []), fault = fourthFault, issued = 3 \<rparr>,
       tableName = ''ingested_data'' \<rparr>"

definition storedPost1 :: TransformedPost where
  "storedPost1 = \<lparr> Post = testPost1, IngestedAt = 1700000000, Source = ''placeholder_api'' \<rparr>"

definition storedPost2 :: TransformedPost where
  "storedPost2 = \<lparr> Post = testPost2, IngestedAt = 1700000000, Source = ''placeholder_api'' \<rparr>"

definition twoPostStore :: DynamoDBStorage where
  "twoPostStore = snd (DynamoDB_StorePosts [storedPost1, storedPost2] freshStore)"

definition testService :: "int \<Rightarrow> DynamoDBStorage Service" where
  "testService retryCount =
     \<lparr> config = \<lparr> APIEndpoint = ''http://127.0.0.1:8081'', Interval = 5 * Minute,
                  Timeout = 30 * Second, RetryCount = retryCount \<rparr>,
       storage = DynamoDB \<rparr>"

text \<open>The same service with an ingestion interval of zero.\<close>

definition ticklessService :: "DynamoDBStorage Service" where
  "ticklessService =
     \<lparr> config = \<lparr> APIEndpoint = ''http://127.0.0.1:8081'', Interval = 0,
                  Timeout = 30 * Second, RetryCount = 3 \<rparr>,
       storage = DynamoDB \<rparr>"

definition freshWorld :: "DynamoDBStorage \<Rightarrow> DynamoDBStorage world" where
  "freshWorld d =
     \<lparr> requests = 0, selects = 0, waited = [], ticks = 0, nows = 0, stdout = [], calls = [],
       backend = d \<rparr>"

definition ok200 :: exchange where
  "ok200 = Response \<lparr> StatusCode = 200, Body = Bytes ''[post 1]'' \<rparr>"

definition status500 :: exchange where
  "status500 = Response \<lparr> StatusCode = 500, Body = Bytes [] \<rparr>"

definition decodeTest :: "string \<Rightarrow> error + Post list" where
  "decodeTest b =
     (if b = ''[post 1]'' then Inr [testPost1]
      else Inl (External ''invalid character''))"

definition failsFirst :: "nat \<Rightarrow> nat \<Rightarrow> exchange" where
  "failsFirst k n = (if n < k then status500 else ok200)"

definition alwaysFails :: "nat \<Rightarrow> exchange" where
  "alwaysFails n = status500"

definition okThenFails :: "nat \<Rightarrow> exchange" where
  "okThenFails n = (if n = 0 then ok200 else status500)"

definition alwaysOk :: "nat \<Rightarrow> exchange" where
  "alwaysOk n = ok200"

definition neverDone :: "nat \<Rightarrow> selected" where
  "neverDone n = TimerFired"

definition doneAt :: "nat \<Rightarrow> nat \<Rightarrow> selected" where
  "doneAt k n = (if n < k then TimerFired else CtxDone)"

definition testClock :: "nat \<Rightarrow> time" where
  "testClock n = 1700000000 + int n"

definition testEnv :: "(nat \<Rightarrow> exchange) \<Rightarrow> (nat \<Rightarrow> selected) \<Rightarrow> (nat \<Rightarrow> selected) \<Rightarrow> env" where
  "testEnv h b t =
     \<lparr> http = h, unmarshal = decodeTest, backoff = b, ticker = t, ctxErr = Canceled,
       clock = testClock \<rparr>"

text \<open>
  Three process environments: one in which every enumerated variable is set to a value
  that is not of its kind, the one of the compose file, and one whose values are well
  formed and differ from the defaults. The parsers accept the numbers and durations
  that occur in them and reject every other string.
\<close>

definition malformedEnv :: "string \<Rightarrow> string" where
  "malformedEnv key =
     (if key = ''STORAGE_TYPE'' then ''s3''
      else if key = ''API_ENDPOINT'' then ''not a url''
      else if key = ''INGESTION_INTERVAL'' then ''five minutes''
      else if key = ''API_TIMEOUT'' then ''30''
      else if key = ''RETRY_COUNT'' then ''three''
      else if key = ''SERVER_PORT'' then ''80 80''
      else [])"

definition composeEnv :: "string \<Rightarrow> string" where
  "composeEnv key =
     (if key = ''STORAGE_TYPE'' then ''dynamodb''
      else if key = ''AWS_REGION'' then ''us-west-2''
      else if key = ''DYNAMODB_ENDPOINT'' then ''http://dynamodb:8000''
      else if key = ''TABLE_NAME'' then ''ingested_data''
      else if key = ''API_ENDPOINT'' then ''https://jsonplaceholder.typicode.com/posts''
      else if key = ''INGESTION_INTERVAL'' then ''5m''
      else if key = ''API_TIMEOUT'' then ''30s''
      else if key = ''RETRY_COUNT'' then ''3''
      else if key = ''SERVER_PORT'' then ''8080''
      else [])"

definition tunedEnv :: "string \<Rightarrow> string" where
  "tunedEnv key =
     (if key = ''STORAGE_TYPE'' then ''mongodb''
      else if key = ''API_ENDPOINT'' then ''http://localhost:9000/posts''
      else if key = ''INGESTION_INTERVAL'' then ''0s''
      else if key = ''API_TIMEOUT'' then ''5m''
      else if key = ''RETRY_COUNT'' then ''0''
      else if key = ''SERVER_PORT'' then ''9090''
      else [])"

definition sampleAtoi :: "string \<Rightarrow> error + int" where
  "sampleAtoi v =
     (if v = ''0'' then Inr 0
      else if v = ''1'' then Inr 1
      else if v = ''3'' then Inr 3
      else if v = ''8080'' then Inr 8080
      else if v = ''9090'' then Inr 9090
      else Inl (External ''strconv.Atoi: invalid syntax''))"

definition sampleParseDuration :: "string \<Rightarrow> error + int" where
  "sampleParseDuration v =
     (if v = ''0s'' then Inr 0
      else if v = ''5m'' then Inr (5 * Minute)
      else if v = ''30s'' then Inr (30 * Second)
      else Inl (External ''time: invalid duration''))"

definition malformedRuntime :: runtime where
  "malformedRuntime =
     \<lparr> Getenv = malformedEnv, Atoi = sampleAtoi, ParseDuration = sampleParseDuration \<rparr>"

definition composeRuntime :: runtime where
  "composeRuntime =
     \<lparr> Getenv = composeEnv, Atoi = sampleAtoi, ParseDuration = sampleParseDuration \<rparr>"

definition tunedRuntime :: runtime where
  "tunedRuntime =
     \<lparr> Getenv = tunedEnv, Atoi = sampleAtoi, ParseDuration = sampleParseDuration \<rparr>"

definition newTestStore :: "StorageConfig \<Rightarrow> error + DynamoDBStorage" where
  "newTestStore cfg = NewDynamoDBStorage None noService cfg"

definition noBackend :: "StorageConfig \<Rightarrow> error + DynamoDBStorage" where
  "noBackend cfg = Inl (External ''connection refused'')"

section \<open>The retry loop\<close>

lemma int64_id:
  "- 9223372036854775808 \<le> x \<Longrightarrow> x < 9223372036854775808 \<Longrightarrow> int64 x = x"
  by (simp add: int64_def)

text \<open>Up to 9223372036 seconds the product with \<open>time.Second\<close> is exact.\<close>

lemma int64_seconds:
  "0 \<le> i \<Longrightarrow> i \<le> 9223372036 \<Longrightarrow> int64 (int64 i * Second) = i * Second"
  by (simp add: int64_id Second_def)

lemma fetchPosts_loop_success:
  "attempt < RetryCount (config s) \<Longrightarrow> fetchOutcome e (http e (requests w)) = Inr posts \<Longrightarrow>
   fetchPosts_loop s e attempt lastErr w = (Inr posts, w\<lparr>requests := requests w + 1\<rparr>)"
  by (simp add: fetchPostsOnce_def)

lemma fetchPosts_loop_retry_step:
  "attempt < RetryCount (config s) - 1 \<Longrightarrow> fetchOutcome e (http e (requests w)) = Inl err \<Longrightarrow>
   backoff e (selects w) = TimerFired \<Longrightarrow>
   fetchPosts_loop s e attempt lastErr w =
   fetchPosts_loop s e (attempt + 1) (Some err)
     (w\<lparr>requests := requests w + 1, selects := selects w + 1,
        waited := waited w @ [int64 (int64 (attempt + 1) * Second)]\<rparr>)"
  by (subst fetchPosts_loop.simps) (simp add: fetchPostsOnce_def Let_def)

lemma fetchPosts_loop_cancel_step:
  "attempt < RetryCount (config s) - 1 \<Longrightarrow> fetchOutcome e (http e (requests w)) = Inl err \<Longrightarrow>
   backoff e (selects w) = CtxDone \<Longrightarrow>
   fetchPosts_loop s e attempt lastErr w =
   (Inl (ctxErr e), w\<lparr>requests := requests w + 1, selects := selects w + 1\<rparr>)"
  by (subst fetchPosts_loop.simps) (simp add: fetchPostsOnce_def Let_def)

lemma fetchPosts_loop_last_step:
  "attempt = RetryCount (config s) - 1 \<Longrightarrow> fetchOutcome e (http e (requests w)) = Inl err \<Longrightarrow>
   fetchPosts_loop s e attempt lastErr w =
   (Inl (FailedAfterAttempts (RetryCount (config s)) (Some err)), w\<lparr>requests := requests w + 1\<rparr>)"
  by (subst fetchPosts_loop.simps) (simp add: fetchPostsOnce_def Let_def)

text \<open>
  \<open>m\<close> failed attempts, each followed by a wait that runs to its end, take the loop from
  attempt \<open>a\<close> to attempt \<open>a + m\<close>.
\<close>

lemma fetchPosts_loop_retries:
  "a + int m \<le> RetryCount (config s) - 1 \<Longrightarrow>
   (\<forall>i<m. isl (fetchOutcome e (http e (requests w + i)))) \<Longrightarrow>
   (\<forall>i<m. backoff e (selects w + i) = TimerFired) \<Longrightarrow>
   fetchPosts_loop s e a lastErr w =
   fetchPosts_loop s e (a + int m)
     (if m = 0 then lastErr else Some (projl (fetchOutcome e (http e (requests w + (m - 1))))))
     (w\<lparr>requests := requests w + m, selects := selects w + m,
        waited := waited w @ map (\<lambda>i. int64 (int64 (a + (1 + int i)) * Second)) [0..<m]\<rparr>)"
proof (induction m)
  case 0
  then show ?case by simp
next
  case (Suc m)
  let ?w = "w\<lparr>requests := requests w + m, selects := selects w + m,
        waited := waited w @ map (\<lambda>i. int64 (int64 (a + (1 + int i)) * Second)) [0..<m]\<rparr>"
  from Suc.prems have fail: "isl (fetchOutcome e (http e (requests ?w)))"
    and fire: "backoff e (selects ?w) = TimerFired"
    by simp_all
  from fail obtain err where err: "fetchOutcome e (http e (requests ?w)) = Inl err"
    by (auto simp: isl_def)
  from Suc.prems have lt: "a + int m < RetryCount (config s) - 1" by simp
  have "fetchPosts_loop s e a lastErr w =
        fetchPosts_loop s e (a + int m)
          (if m = 0 then lastErr else Some (projl (fetchOutcome e (http e (requests w + (m - 1)))))) ?w"
    using Suc.prems by (intro Suc.IH) simp_all
  also have "\<dots> = fetchPosts_loop s e (a + int m + 1) (Some err)
      (?w\<lparr>requests := requests ?w + 1, selects := selects ?w + 1,
          waited := waited ?w @ [int64 (int64 (a + int m + 1) * Second)]\<rparr>)"
    by (rule fetchPosts_loop_retry_step [OF lt err fire])
  finally show ?case using err by (simp add: add.commute add.left_commute)
qed

lemma map_from_one: "map (\<lambda>i. f (1 + int i)) [0..<k] = map f [1..int k]"
proof (induction k)
  case 0
  then show ?case by simp
next
  case (Suc k)
  have "[1..int (Suc k)] = [1..int k] @ [int k + 1]"
    by (simp add: upto_rec2 add.commute)
  with Suc show ?case by (simp add: add.commute)
qed

lemma last_map_from_one: "0 < k \<Longrightarrow> last (xs @ map f [1..int k]) = f (int k)"
proof -
  assume "0 < k"
  then have "[1..int k] = [1..int k - 1] @ [int k]"
    by (simp add: upto_rec2)
  then show ?thesis by simp
qed

text \<open>The loop reads the service's configuration only, and leaves the rest of the state alone.\<close>

lemma fetchPosts_loop_config:
  "config s' = config s \<Longrightarrow> fetchPosts_loop s' e a l w = fetchPosts_loop s e a l w"
proof (induction s e a l w rule: fetchPosts_loop.induct)
  case (1 s e attempt lastErr w)
  show ?case
    apply (subst fetchPosts_loop.simps [of s'])
    apply (subst fetchPosts_loop.simps [of s])
    using 1
    apply (auto simp: fetchPostsOnce_def Let_def split: sum.splits selected.splits)
    done
qed

lemma fetchPosts_loop_frame:
  "ticks (snd (fetchPosts_loop s e a l w)) = ticks w \<and>
   calls (snd (fetchPosts_loop s e a l w)) = calls w \<and>
   backend (snd (fetchPosts_loop s e a l w)) = backend w"
proof (induction s e a l w rule: fetchPosts_loop.induct)
  case (1 s e attempt lastErr w)
  show ?case
    apply (subst (1 2 3) fetchPosts_loop.simps)
    using 1
    apply (auto simp: fetchPostsOnce_def Let_def split: sum.splits selected.splits)
    done
qed

text \<open>
  \<open>k\<close> failed attempts with their waits, then a successful one: the run for every \<open>k\<close>,
  with the waits as the durations the source computes.
\<close>

lemma fetchPosts_after_retries:
  assumes "int k < RetryCount (config s)"
    and "\<forall>i<k. isl (fetchOutcome e (http e (requests w + i)))"
    and "\<forall>i<k. backoff e (selects w + i) = TimerFired"
    and "fetchOutcome e (http e (requests w + k)) = Inr posts"
  shows "fetchPosts s e w =
    (Inr posts, w\<lparr>requests := requests w + (k + 1), selects := selects w + k,
                  waited := waited w @ map (\<lambda>i. int64 (int64 i * Second)) [1..int k]\<rparr>)"
proof -
  let ?w = "w\<lparr>requests := requests w + k, selects := selects w + k,
        waited := waited w @ map (\<lambda>i. int64 (int64 (0 + (1 + int i)) * Second)) [0..<k]\<rparr>"
  have "fetchPosts s e w = fetchPosts_loop s e (0 + int k)
     (if k = 0 then None else Some (projl (fetchOutcome e (http e (requests w + (k - 1)))))) ?w"
    unfolding fetchPosts_def using assms(1-3) by (intro fetchPosts_loop_retries) simp_all
  also have "\<dots> = (Inr posts, ?w\<lparr>requests := requests ?w + 1\<rparr>)"
    using assms(1,4) by (intro fetchPosts_loop_success) simp_all
  finally show ?thesis
    by (simp add: map_from_one [of "\<lambda>i. int64 (int64 i * Second)"])
qed

text \<open>
  C1, as amended. For a retry count \<open>N \<ge> 1\<close> and \<open>k < N\<close>: when the first \<open>k\<close> attempts
  fail (each wait between them running to its end) and attempt \<open>k + 1\<close> succeeds,
  \<open>fetchPosts\<close> returns the records of that attempt after exactly \<open>k + 1\<close> attempts and
  exactly \<open>k\<close> waits, one before each retry and none after the last attempt; the i-th
  wait is \<open>time.Duration(i) * time.Second\<close>. For \<open>k\<close> up to 9223372036, the longest
  whole number of seconds a \<open>time.Duration\<close> holds, the waits are 1, 2, ..., \<open>k\<close> seconds.
\<close>

theorem fetchPosts_retry_then_success:
  assumes "int k < RetryCount (config s)"
    and "\<forall>i<k. isl (fetchOutcome e (http e (requests w + i)))"
    and "\<forall>i<k. backoff e (selects w + i) = TimerFired"
    and "fetchOutcome e (http e (requests w + k)) = Inr posts"
  shows "fetchPosts s e w =
    (Inr posts, w\<lparr>requests := requests w + (k + 1), selects := selects w + k,
                  waited := waited w @ map (\<lambda>i. int64 (int64 i * Second)) [1..int k]\<rparr>)
    \<and> (int k \<le> 9223372036 \<longrightarrow>
         waited (snd (fetchPosts s e w)) = waited w @ map (\<lambda>i. i * Second) [1..int k])"
proof (intro conjI impI)
  show run: "fetchPosts s e w =
    (Inr posts, w\<lparr>requests := requests w + (k + 1), selects := selects w + k,
                  waited := waited w @ map (\<lambda>i. int64 (int64 i * Second)) [1..int k]\<rparr>)"
    using assms by (rule fetchPosts_after_retries)
  assume bound: "int k \<le> 9223372036"
  have "map (\<lambda>i. int64 (int64 i * Second)) [1..int k] = map (\<lambda>i. i * Second) [1..int k]"
    using bound by (intro map_cong refl int64_seconds) auto
  then show "waited (snd (fetchPosts s e w)) = waited w @ map (\<lambda>i. i * Second) [1..int k]"
    by (simp add: run)
qed

text \<open>The run of \<open>TestService_fetchPosts_WithRetry\<close>: two answers 500, then one post.\<close>

theorem fetchPosts_retry_then_success_witness:
  "fetchPosts (testService 3) (testEnv (failsFirst 2) neverDone neverDone) (freshWorld freshStore) =
    (Inr [testPost1],
     (freshWorld freshStore)\<lparr>requests := 3, selects := 2, waited := [1 * Second, 2 * Second]\<rparr>)"
  using fetchPosts_retry_then_success [of 2 "testService 3"
      "testEnv (failsFirst 2) neverDone neverDone" "freshWorld freshStore" "[testPost1]"]
  by (simp add: testService_def freshWorld_def testEnv_def failsFirst_def neverDone_def
      ok200_def status500_def decodeTest_def fetchOutcome_def upto.simps int64_def Second_def)

text \<open>
  The claim as stated, for every retry count, fails where the product wraps around:
  with 9223372038 attempts allowed and 9223372037 failures before the success, the
  last wait is not 9223372037 seconds but a negative duration.
\<close>

theorem fetchPosts_wait_wraps:
  "fst (fetchPosts (testService 9223372038) (testEnv (failsFirst 9223372037) neverDone neverDone)
         (freshWorld freshStore)) = Inr [testPost1]
   \<and> requests (snd (fetchPosts (testService 9223372038)
         (testEnv (failsFirst 9223372037) neverDone neverDone) (freshWorld freshStore))) = 9223372038
   \<and> last (waited (snd (fetchPosts (testService 9223372038)
         (testEnv (failsFirst 9223372037) neverDone neverDone) (freshWorld freshStore)))) =
       - 9223372036709551616
   \<and> 9223372037 * Second = 9223372037000000000"
proof -
  let ?s = "testService 9223372038"
  let ?e = "testEnv (failsFirst 9223372037) neverDone neverDone"
  let ?w = "freshWorld freshStore"
  define k :: nat where "k = 9223372037"
  have n: "int k < RetryCount (config ?s)"
    by (simp add: k_def testService_def)
  have fails: "\<forall>i<k. isl (fetchOutcome ?e (http ?e (requests ?w + i)))"
    by (simp add: k_def testEnv_def failsFirst_def status500_def fetchOutcome_def freshWorld_def)
  have fires: "\<forall>i<k. backoff ?e (selects ?w + i) = TimerFired"
    by (simp add: testEnv_def neverDone_def)
  have ok: "fetchOutcome ?e (http ?e (requests ?w + k)) = Inr [testPost1]"
    by (simp add: k_def testEnv_def failsFirst_def ok200_def decodeTest_def fetchOutcome_def
        freshWorld_def)
  note run = fetchPosts_after_retries [OF n fails fires ok]
  have "0 < k" by (simp add: k_def)
  have "waited (snd (fetchPosts ?s ?e ?w)) =
      waited ?w @ map (\<lambda>i. int64 (int64 i * Second)) [1..int k]"
    by (simp add: run)
  with \<open>0 < k\<close> have "last (waited (snd (fetchPosts ?s ?e ?w))) = int64 (int64 (int k) * Second)"
    by (simp only: last_map_from_one)
  also have "\<dots> = - 9223372036709551616"
    by (simp add: k_def int64_def Second_def)
  finally have wrap: "last (waited (snd (fetchPosts ?s ?e ?w))) = - 9223372036709551616" .
  have "requests (snd (fetchPosts ?s ?e ?w)) = requests ?w + (k + 1)"
    by (simp add: run)
  also have "\<dots> = 9223372038"
    by (simp add: freshWorld_def k_def)
  finally have count: "requests (snd (fetchPosts ?s ?e ?w)) = 9223372038" .
  have "fst (fetchPosts ?s ?e ?w) = Inr [testPost1]"
    by (simp add: run)
  with count wrap show ?thesis by (simp add: Second_def)
qed

text \<open>
  C4. For a retry count \<open>N \<ge> 1\<close>: when all \<open>N\<close> attempts fail and no wait is cut short by
  the context, \<open>fetchPosts\<close> returns no records and the error "failed after N attempts"
  that wraps the cause of the last attempt; it has made exactly \<open>N\<close> attempts and waited
  the \<open>N - 1\<close> intervals between them.
\<close>

theorem fetchPosts_exhausted:
  assumes "RetryCount (config s) = int n" and "1 \<le> n"
    and "\<forall>i<n. isl (fetchOutcome e (http e (requests w + i)))"
    and "\<forall>i<n - 1. backoff e (selects w + i) = TimerFired"
    and "fetchOutcome e (http e (requests w + (n - 1))) = Inl cause"
  shows "fetchPosts s e w =
    (Inl (FailedAfterAttempts (int n) (Some cause)),
     w\<lparr>requests := requests w + n, selects := selects w + (n - 1),
       waited := waited w @ map (\<lambda>i. int64 (int64 i * Second)) [1..int n - 1]\<rparr>)"
proof -
  let ?m = "n - 1"
  let ?w = "w\<lparr>requests := requests w + ?m, selects := selects w + ?m,
        waited := waited w @ map (\<lambda>i. int64 (int64 (0 + (1 + int i)) * Second)) [0..<?m]\<rparr>"
  have "fetchPosts s e w = fetchPosts_loop s e (0 + int ?m)
     (if ?m = 0 then None else Some (projl (fetchOutcome e (http e (requests w + (?m - 1)))))) ?w"
    unfolding fetchPosts_def using assms(1-4) by (intro fetchPosts_loop_retries) simp_all
  also have "\<dots> = (Inl (FailedAfterAttempts (RetryCount (config s)) (Some cause)),
      ?w\<lparr>requests := requests ?w + 1\<rparr>)"
    using assms(1,2,5) by (intro fetchPosts_loop_last_step) (simp_all add: of_nat_diff)
  finally show ?thesis using assms(1,2)
    by (simp add: map_from_one [of "\<lambda>i. int64 (int64 i * Second)"] of_nat_diff)
qed

text \<open>The run of \<open>TestService_fetchPosts_ExceedsRetryLimit\<close>: every answer is a 500.\<close>

theorem fetchPosts_exhausted_witness:
  "fetchPosts (testService 3) (testEnv alwaysFails neverDone neverDone) (freshWorld freshStore) =
    (Inl (FailedAfterAttempts 3 (Some (ApiReturnedStatus 500))),
     (freshWorld freshStore)\<lparr>requests := 3, selects := 2, waited := [1 * Second, 2 * Second]\<rparr>)"
  using fetchPosts_exhausted [of "testService 3" 3
      "testEnv alwaysFails neverDone neverDone" "freshWorld freshStore" "ApiReturnedStatus 500"]
  by (simp add: testService_def freshWorld_def testEnv_def alwaysFails_def neverDone_def
      status500_def fetchOutcome_def upto.simps int64_def Second_def)

text \<open>
  C5. When the context is done while \<open>fetchPosts\<close> waits out the backoff interval after
  a failed attempt, \<open>fetchPosts\<close> returns at once with the context's error, not with the
  error of the failed attempt: no further attempt is made and the interval is not
  waited out.
\<close>

theorem fetchPosts_cancelled_in_backoff:
  assumes "int j < RetryCount (config s) - 1"
    and "\<forall>i\<le>j. isl (fetchOutcome e (http e (requests w + i)))"
    and "\<forall>i<j. backoff e (selects w + i) = TimerFired"
    and "backoff e (selects w + j) = CtxDone"
  shows "fetchPosts s e w =
    (Inl (ctxErr e),
     w\<lparr>requests := requests w + (j + 1), selects := selects w + (j + 1),
       waited := waited w @ map (\<lambda>i. int64 (int64 i * Second)) [1..int j]\<rparr>)"
proof -
  let ?w = "w\<lparr>requests := requests w + j, selects := selects w + j,
        waited := waited w @ map (\<lambda>i. int64 (int64 (0 + (1 + int i)) * Second)) [0..<j]\<rparr>"
  from assms(2) obtain err where err: "fetchOutcome e (http e (requests ?w)) = Inl err"
    by (auto simp: isl_def)
  have "fetchPosts s e w = fetchPosts_loop s e (0 + int j)
     (if j = 0 then None else Some (projl (fetchOutcome e (http e (requests w + (j - 1)))))) ?w"
    unfolding fetchPosts_def using assms(1-3) by (intro fetchPosts_loop_retries) simp_all
  also have "\<dots> = (Inl (ctxErr e), ?w\<lparr>requests := requests ?w + 1, selects := selects ?w + 1\<rparr>)"
    using assms(1,4) err by (intro fetchPosts_loop_cancel_step) simp_all
  finally show ?thesis
    by (simp add: map_from_one [of "\<lambda>i. int64 (int64 i * Second)"])
qed

text \<open>Every answer is a 500 and the context is cancelled during the second wait.\<close>

theorem fetchPosts_cancelled_in_backoff_witness:
  "fetchPosts (testService 3) (testEnv alwaysFails (doneAt 1) neverDone) (freshWorld freshStore) =
    (Inl Canceled,
     (freshWorld freshStore)\<lparr>requests := 2, selects := 2, waited := [1 * Second]\<rparr>)"
  using fetchPosts_cancelled_in_backoff [of 1 "testService 3"
      "testEnv alwaysFails (doneAt 1) neverDone" "freshWorld freshStore"]
  by (simp add: testService_def freshWorld_def testEnv_def alwaysFails_def neverDone_def
      doneAt_def status500_def fetchOutcome_def upto.simps int64_def Second_def)

text \<open>
  C10. With a retry count of zero or below, \<open>fetchPosts\<close> makes no attempt and returns
  the error "failed after N attempts" around a nil cause; so the cycle fails at its
  fetch step, and \<open>Start\<close> returns the failure of the initial cycle.
\<close>

theorem fetchPosts_no_attempts:
  assumes "RetryCount (config s) \<le> 0"
  shows "fetchPosts s e w = (Inl (FailedAfterAttempts (RetryCount (config s)) None), w)
    \<and> IngestData s e w =
      (Some (Wrap ''failed to fetch posts'' (FailedAfterAttempts (RetryCount (config s)) None)), w)
    \<and> Start s e w =
      Some (Return (Wrap ''initial ingestion failed''
             (Wrap ''failed to fetch posts'' (FailedAfterAttempts (RetryCount (config s)) None))), w)"
  using assms by (simp add: fetchPosts_def IngestData_def Start_def)

theorem fetchPosts_no_attempts_witness:
  "fetchPosts (testService 0) (testEnv alwaysOk neverDone neverDone) (freshWorld freshStore) =
     (Inl (FailedAfterAttempts 0 None), freshWorld freshStore)
   \<and> Start (testService 0) (testEnv alwaysOk neverDone neverDone) (freshWorld freshStore) =
     Some (Return (Wrap ''initial ingestion failed''
            (Wrap ''failed to fetch posts'' (FailedAfterAttempts 0 None))), freshWorld freshStore)"
  using fetchPosts_no_attempts [of "testService 0" "testEnv alwaysOk neverDone neverDone"
      "freshWorld freshStore"]
  by (simp add: testService_def)

section \<open>The lifecycle of \<open>Start\<close>\<close>

lemma transformPosts_ticks: "ticks (snd (transformPosts e posts w)) = ticks w"
  by (simp add: transformPosts_def Let_def)

lemma IngestData_ticks: "ticks (snd (IngestData s e w)) = ticks w"
  using fetchPosts_loop_frame [of s e 0 None w]
  by (auto simp: IngestData_def fetchPosts_def transformPosts_def Let_def
      split: prod.splits sum.splits option.splits)

lemma tickCycle_ticks: "ticks (tickCycle s e w) = ticks w + 1"
  using IngestData_ticks [of s e "w\<lparr>ticks := ticks w + 1\<rparr>"]
  by (auto simp: tickCycle_def split: prod.splits option.splits)

lemma Start_loop_done:
  "ticker e (ticks w) = CtxDone \<Longrightarrow>
   Start_loop s e w = Some (Return (ctxErr e), w\<lparr>ticks := ticks w + 1\<rparr>)"
  by (subst Start_loop.simps) simp

lemma Start_loop_tick:
  "ticker e (ticks w) = TimerFired \<Longrightarrow> Start_loop s e w = Start_loop s e (tickCycle s e w)"
  by (subst Start_loop.simps) (simp add: tickCycle_def split: prod.splits option.splits)

text \<open>
  The loop returns at the first select that sees the context done, after one cycle for
  each tick before it, whatever those cycles returned.
\<close>

lemma Start_loop_returns:
  "(\<forall>i<n. ticker e (ticks w + i) = TimerFired) \<Longrightarrow> ticker e (ticks w + n) = CtxDone \<Longrightarrow>
   Start_loop s e w =
     Some (Return (ctxErr e), ((tickCycle s e ^^ n) w)\<lparr>ticks := ticks w + n + 1\<rparr>)"
proof (induction n arbitrary: w)
  case 0
  then show ?case by (simp add: Start_loop_done)
next
  case (Suc n)
  from Suc.prems have first: "ticker e (ticks w) = TimerFired"
    by (metis add.right_neutral zero_less_Suc)
  have "Start_loop s e (tickCycle s e w) =
        Some (Return (ctxErr e),
          ((tickCycle s e ^^ n) (tickCycle s e w))\<lparr>ticks := ticks (tickCycle s e w) + n + 1\<rparr>)"
  proof (rule Suc.IH)
    show "\<forall>i<n. ticker e (ticks (tickCycle s e w) + i) = TimerFired"
      using Suc.prems(1) by (auto simp: tickCycle_ticks dest: spec [where x = "Suc i" for i])
    show "ticker e (ticks (tickCycle s e w) + n) = CtxDone"
      using Suc.prems(2) by (simp add: tickCycle_ticks)
  qed
  then show ?case
    by (simp add: Start_loop_tick [OF first] tickCycle_ticks funpow_swap1)
qed

text \<open>A returning loop returns the context's error, and some select saw the context done.\<close>

lemma Start_loop_only_done:
  assumes "Start_loop s e w = Some r"
  shows "fst r = Return (ctxErr e) \<and> (\<exists>n. ticker e (ticks w + n) = CtxDone)"
proof (rule Start_loop.raw_induct
    [where P = "\<lambda>s e w r. fst r = Return (ctxErr e) \<and> (\<exists>n. ticker e (ticks w + n) = CtxDone)",
     OF _ assms], goal_cases)
  case (1 loop s e w r)
  show ?case
  proof (cases "ticker e (ticks w)")
    case CtxDone
    with 1(2) have "fst r = Return (ctxErr e)" by auto
    moreover from CtxDone have "ticker e (ticks w + 0) = CtxDone" by simp
    ultimately show ?thesis by blast
  next
    case TimerFired
    with 1(2) have "loop s e (tickCycle s e w) = Some r"
      by (simp add: tickCycle_def split: prod.splits option.splits)
    from 1(1) [OF this] obtain n where "fst r = Return (ctxErr e)"
      and "ticker e (ticks w + Suc n) = CtxDone"
      by (auto simp: tickCycle_ticks)
    then show ?thesis by blast
  qed
qed

lemma Start_loop_forever:
  assumes "\<forall>n. ticker e (ticks w + n) = TimerFired"
  shows "Start_loop s e w = None"
proof (rule ccontr)
  assume "Start_loop s e w \<noteq> None"
  then obtain r where "Start_loop s e w = Some r" by auto
  from Start_loop_only_done [OF this] assms show False by auto
qed

text \<open>
  C2. \<open>Start\<close> runs one cycle first; when that cycle fails, \<open>Start\<close> returns its error
  (wrapped as the initial ingestion's failure) in the state the cycle left, without a
  single select of the ticker loop. After a good initial cycle the ticker is made, and
  an interval that is not positive makes \<open>time.NewTicker\<close> panic before the loop.
  Once in the loop (a positive interval): a periodic cycle that fails has its error
  printed and the loop goes on; the loop returns at the first select that sees the
  context done, with the context's error, after one cycle per tick before it whatever
  those cycles returned; with no such select it never returns; and whenever it returns,
  it returns the context's error.
\<close>

theorem Start_lifecycle:
  "(\<forall>err w1. IngestData s e w = (Some err, w1) \<longrightarrow>
       Start s e w = Some (Return (Wrap ''initial ingestion failed'' err), w1) \<and>
       ticks w1 = ticks w)
   \<and> (\<forall>w1. IngestData s e w = (None, w1) \<and> Interval (config s) \<le> 0 \<longrightarrow>
       Start s e w = Some (Panic ''non-positive interval for NewTicker'', w1))
   \<and> (\<forall>err w1 w2. 0 < Interval (config s) \<and> IngestData s e w = (None, w1) \<and>
         ticker e (ticks w1) = TimerFired \<and>
         IngestData s e (w1\<lparr>ticks := ticks w1 + 1\<rparr>) = (Some err, w2) \<longrightarrow>
       Start s e w = Start_loop s e (w2\<lparr>stdout := stdout w2 @ [IngestionError err]\<rparr>))
   \<and> (\<forall>w1 n. 0 < Interval (config s) \<and> IngestData s e w = (None, w1) \<and>
         (\<forall>i<n. ticker e (ticks w + i) = TimerFired) \<and> ticker e (ticks w + n) = CtxDone \<longrightarrow>
       Start s e w =
         Some (Return (ctxErr e), ((tickCycle s e ^^ n) w1)\<lparr>ticks := ticks w + n + 1\<rparr>))
   \<and> (0 < Interval (config s) \<and> fst (IngestData s e w) = None \<and>
         (\<forall>n. ticker e (ticks w + n) = TimerFired) \<longrightarrow>
       Start s e w = None)
   \<and> (\<forall>r. 0 < Interval (config s) \<and> Start s e w = Some r \<and> fst (IngestData s e w) = None \<longrightarrow>
       fst r = Return (ctxErr e) \<and> (\<exists>n. ticker e (ticks w + n) = CtxDone))"
proof (intro conjI allI impI)
  fix err w1
  assume "IngestData s e w = (Some err, w1)"
  then show "Start s e w = Some (Return (Wrap ''initial ingestion failed'' err), w1)"
    by (simp add: Start_def)
  from \<open>IngestData s e w = (Some err, w1)\<close> IngestData_ticks [of s e w]
  show "ticks w1 = ticks w" by simp
next
  fix w1
  assume "IngestData s e w = (None, w1) \<and> Interval (config s) \<le> 0"
  then show "Start s e w = Some (Panic ''non-positive interval for NewTicker'', w1)"
    by (simp add: Start_def)
next
  fix err w1 w2
  assume a: "0 < Interval (config s) \<and> IngestData s e w = (None, w1) \<and>
         ticker e (ticks w1) = TimerFired \<and>
         IngestData s e (w1\<lparr>ticks := ticks w1 + 1\<rparr>) = (Some err, w2)"
  then have "Start s e w = Start_loop s e w1" by (simp add: Start_def)
  also from a have "\<dots> = Start_loop s e (w2\<lparr>stdout := stdout w2 @ [IngestionError err]\<rparr>)"
    by (subst Start_loop.simps) simp
  finally show "Start s e w = Start_loop s e (w2\<lparr>stdout := stdout w2 @ [IngestionError err]\<rparr>)" .
next
  fix w1 n
  assume a: "0 < Interval (config s) \<and> IngestData s e w = (None, w1) \<and>
         (\<forall>i<n. ticker e (ticks w + i) = TimerFired) \<and> ticker e (ticks w + n) = CtxDone"
  with IngestData_ticks [of s e w] have t: "ticks w1 = ticks w" by simp
  from a have "Start s e w = Start_loop s e w1" by (simp add: Start_def)
  also from a t
  have "\<dots> = Some (Return (ctxErr e), ((tickCycle s e ^^ n) w1)\<lparr>ticks := ticks w1 + n + 1\<rparr>)"
    by (intro Start_loop_returns) simp_all
  finally show "Start s e w =
      Some (Return (ctxErr e), ((tickCycle s e ^^ n) w1)\<lparr>ticks := ticks w + n + 1\<rparr>)"
    using t by simp
next
  assume a: "0 < Interval (config s) \<and> fst (IngestData s e w) = None \<and>
      (\<forall>n. ticker e (ticks w + n) = TimerFired)"
  obtain w1 where w1: "IngestData s e w = (None, w1)"
    using a by (cases "IngestData s e w") auto
  with IngestData_ticks [of s e w] have t: "ticks w1 = ticks w" by simp
  from w1 a have "Start s e w = Start_loop s e w1" by (simp add: Start_def)
  also from a t have "\<dots> = None" by (intro Start_loop_forever) simp
  finally show "Start s e w = None" .
next
  fix r
  assume a: "0 < Interval (config s) \<and> Start s e w = Some r \<and> fst (IngestData s e w) = None"
  obtain w1 where w1: "IngestData s e w = (None, w1)"
    using a by (cases "IngestData s e w") auto
  with IngestData_ticks [of s e w] have t: "ticks w1 = ticks w" by simp
  from a w1 have "Start_loop s e w1 = Some r" by (auto simp: Start_def)
  from Start_loop_only_done [OF this] t
  have r: "fst r = Return (ctxErr e) \<and> (\<exists>n. ticker e (ticks w + n) = CtxDone)" by simp
  from r show "fst r = Return (ctxErr e)" by simp
  from r show "\<exists>n. ticker e (ticks w + n) = CtxDone" by simp
qed

text \<open>
  Four runs: an API that is down from the start; an API that answers the initial cycle
  and is down for the two periodic cycles before the context is cancelled; an API that
  always answers, under a context that is never cancelled; and the same API for a
  service whose interval is zero.
\<close>

theorem Start_lifecycle_witness:
  "Start (testService 3) (testEnv alwaysFails neverDone (doneAt 2)) (freshWorld freshStore) =
     Some (Return (Wrap ''initial ingestion failed''
            (Wrap ''failed to fetch posts''
              (FailedAfterAttempts 3 (Some (ApiReturnedStatus 500))))),
           (freshWorld freshStore)\<lparr>requests := 3, selects := 2,
              waited := [1 * Second, 2 * Second]\<rparr>)
   \<and> map_option fst
       (Start (testService 3) (testEnv okThenFails neverDone (doneAt 2)) (freshWorld freshStore)) =
     Some (Return Canceled)
   \<and> map_option (\<lambda>r. (ticks (snd r), requests (snd r), stdout (snd r)))
       (Start (testService 3) (testEnv okThenFails neverDone (doneAt 2)) (freshWorld freshStore)) =
     Some (3, 7,
       [SuccessfullyIngested 1,
        IngestionError (Wrap ''failed to fetch posts''
          (FailedAfterAttempts 3 (Some (ApiReturnedStatus 500)))),
        IngestionError (Wrap ''failed to fetch posts''
          (FailedAfterAttempts 3 (Some (ApiReturnedStatus 500))))])
   \<and> Start (testService 3) (testEnv alwaysOk neverDone neverDone) (freshWorld freshStore) = None
   \<and> map_option fst
       (Start ticklessService (testEnv alwaysOk neverDone neverDone) (freshWorld freshStore)) =
     Some (Panic ''non-positive interval for NewTicker'')"
proof -
  let ?s = "testService 3"
  let ?w = "freshWorld freshStore"
  let ?down = "testEnv alwaysFails neverDone (doneAt 2)"
  let ?outage = "testEnv okThenFails neverDone (doneAt 2)"
  let ?steady = "testEnv alwaysOk neverDone neverDone"
  have pos: "0 < Interval (config ?s)"
    by (simp add: testService_def Minute_def)
  have down: "IngestData ?s ?down ?w =
      (Some (Wrap ''failed to fetch posts'' (FailedAfterAttempts 3 (Some (ApiReturnedStatus 500)))),
       ?w\<lparr>requests := 3, selects := 2, waited := [1 * Second, 2 * Second]\<rparr>)"
    by (simp add: Start_def tickCycle_def IngestData_def fetchPosts_def fetchPostsOnce_def
        fetchOutcome_def transformPosts_def zeroTransformedPost_def DynamoDB_def MarshalPost_def
        PutItemWithContext_def Let_def int64_def Second_def testService_def freshWorld_def
        freshStore_def testEnv_def ok200_def status500_def decodeTest_def alwaysFails_def
        okThenFails_def alwaysOk_def neverDone_def doneAt_def testClock_def testPost1_def
        noTables_def noFault_def)
  have first: "Start ?s ?down ?w =
     Some (Return (Wrap ''initial ingestion failed''
            (Wrap ''failed to fetch posts''
              (FailedAfterAttempts 3 (Some (ApiReturnedStatus 500))))),
           ?w\<lparr>requests := 3, selects := 2, waited := [1 * Second, 2 * Second]\<rparr>)"
    using Start_lifecycle [THEN conjunct1, rule_format, OF down] by simp
  obtain w1 where w1: "IngestData ?s ?outage ?w = (None, w1)"
    by (simp add: Start_def tickCycle_def IngestData_def fetchPosts_def fetchPostsOnce_def
        fetchOutcome_def transformPosts_def zeroTransformedPost_def DynamoDB_def MarshalPost_def
        PutItemWithContext_def Let_def int64_def Second_def testService_def freshWorld_def
        freshStore_def testEnv_def ok200_def status500_def decodeTest_def alwaysFails_def
        okThenFails_def alwaysOk_def neverDone_def doneAt_def testClock_def testPost1_def
        noTables_def noFault_def)
  have ticks2: "\<forall>i<2. ticker ?outage (ticks ?w + i) = TimerFired"
    and done2: "ticker ?outage (ticks ?w + 2) = CtxDone"
    by (simp_all add: testEnv_def doneAt_def freshWorld_def)
  have second: "Start ?s ?outage ?w =
     Some (Return Canceled, ((tickCycle ?s ?outage ^^ 2) w1)\<lparr>ticks := ticks ?w + 2 + 1\<rparr>)"
    using Start_lifecycle [THEN conjunct2, THEN conjunct2, THEN conjunct2, THEN conjunct1,
        rule_format, where s = ?s and e = ?outage and w = ?w and ?w1.0 = w1 and n = 2]
      pos w1 ticks2 done2
    by (simp add: testEnv_def)
  have w1_eq: "w1 = snd (IngestData ?s ?outage ?w)"
    by (simp add: w1)
  have steady: "fst (IngestData ?s ?steady ?w) = None"
    by (simp add: Start_def tickCycle_def IngestData_def fetchPosts_def fetchPostsOnce_def
        fetchOutcome_def transformPosts_def zeroTransformedPost_def DynamoDB_def MarshalPost_def
        PutItemWithContext_def Let_def int64_def Second_def testService_def freshWorld_def
        freshStore_def testEnv_def ok200_def status500_def decodeTest_def alwaysFails_def
        okThenFails_def alwaysOk_def neverDone_def doneAt_def testClock_def testPost1_def
        noTables_def noFault_def)
  have never: "\<forall>n. ticker ?steady (ticks ?w + n) = TimerFired"
    by (simp add: testEnv_def neverDone_def)
  have third: "Start ?s ?steady ?w = None"
    using Start_lifecycle [THEN conjunct2, THEN conjunct2, THEN conjunct2, THEN conjunct2,
        THEN conjunct1, rule_format, where s = ?s and e = ?steady and w = ?w]
      pos steady never
    by simp
  have log: "(ticks ?w + 2 + 1, requests ((tickCycle ?s ?outage ^^ 2) w1),
              stdout ((tickCycle ?s ?outage ^^ 2) w1)) =
     (3, 7,
       [SuccessfullyIngested 1,
        IngestionError (Wrap ''failed to fetch posts''
          (FailedAfterAttempts 3 (Some (ApiReturnedStatus 500)))),
        IngestionError (Wrap ''failed to fetch posts''
          (FailedAfterAttempts 3 (Some (ApiReturnedStatus 500))))])"
    unfolding w1_eq by (simp add: Start_def tickCycle_def IngestData_def fetchPosts_def fetchPostsOnce_def
        fetchOutcome_def transformPosts_def zeroTransformedPost_def DynamoDB_def MarshalPost_def
        PutItemWithContext_def Let_def int64_def Second_def testService_def freshWorld_def
        freshStore_def testEnv_def ok200_def status500_def decodeTest_def alwaysFails_def
        okThenFails_def alwaysOk_def neverDone_def doneAt_def testClock_def testPost1_def
        noTables_def noFault_def numeral_2_eq_2)
  obtain w0 where w0: "IngestData ticklessService ?steady ?w = (None, w0)"
    by (simp add: Start_def tickCycle_def IngestData_def fetchPosts_def fetchPostsOnce_def
        fetchOutcome_def transformPosts_def zeroTransformedPost_def DynamoDB_def MarshalPost_def
        PutItemWithContext_def Let_def int64_def Second_def testService_def freshWorld_def
        freshStore_def testEnv_def ok200_def status500_def decodeTest_def alwaysFails_def
        okThenFails_def alwaysOk_def neverDone_def doneAt_def testClock_def testPost1_def
        noTables_def noFault_def ticklessService_def)
  have zero: "Interval (config ticklessService) \<le> 0"
    by (simp add: ticklessService_def)
  have fourth: "Start ticklessService ?steady ?w =
      Some (Panic ''non-positive interval for NewTicker'', w0)"
    using Start_lifecycle [THEN conjunct2, THEN conjunct1, rule_format,
        where s = ticklessService and e = ?steady and w = ?w and ?w1.0 = w0]
      w0 zero
    by simp
  show ?thesis
    using first second third fourth log by simp
qed

section \<open>The transformation\<close>

lemma fold_update_enumerate:
  "n + length xs \<le> length t \<Longrightarrow>
   fold (\<lambda>(i, x) t. t[i := f x]) (enumerate n xs) t =
   take n t @ map f xs @ drop (n + length xs) t"
proof (induction xs arbitrary: n t)
  case Nil
  then show ?case by simp
next
  case (Cons x xs)
  from Cons.prems have lt: "n < length t" by simp
  have "fold (\<lambda>(i, x) t. t[i := f x]) (enumerate n (x # xs)) t =
        fold (\<lambda>(i, x) t. t[i := f x]) (enumerate (Suc n) xs) (t[n := f x])"
    by simp
  also have "\<dots> = take (Suc n) (t[n := f x]) @ map f xs @ drop (Suc n + length xs) (t[n := f x])"
    using Cons.prems by (intro Cons.IH) simp
  also have "take (Suc n) (t[n := f x]) = take n t @ [f x]"
    using lt by (simp add: take_Suc_conv_app_nth)
  also have "drop (Suc n + length xs) (t[n := f x]) = drop (n + length (x # xs)) t"
    by simp
  finally show ?case by simp
qed

lemma transformPosts_map:
  "transformPosts e posts w =
     (map (\<lambda>post. \<lparr> Post = post, IngestedAt = clock e (nows w), Source = ''placeholder_api'' \<rparr>) posts,
      w\<lparr>nows := nows w + 1\<rparr>)"
  by (simp add: transformPosts_def Let_def fold_update_enumerate)

text \<open>
  C3. For every sequence of raw records, \<open>transformPosts\<close> returns a sequence of the same
  length in the same order; the element at each position carries the input element of
  that position unchanged, the one timestamp read from the clock for this call (the
  clock is read exactly once), and the source tag "placeholder\_api".
\<close>

theorem transformPosts_stamps:
  "transformPosts e posts w =
     (map (\<lambda>post. \<lparr> Post = post, IngestedAt = clock e (nows w), Source = ''placeholder_api'' \<rparr>) posts,
      w\<lparr>nows := nows w + 1\<rparr>)
   \<and> length (fst (transformPosts e posts w)) = length posts
   \<and> (\<forall>i<length posts.
         Post (fst (transformPosts e posts w) ! i) = posts ! i
       \<and> IngestedAt (fst (transformPosts e posts w) ! i) = clock e (nows w)
       \<and> Source (fst (transformPosts e posts w) ! i) = ''placeholder_api'')"
proof (intro conjI allI impI)
  show eq: "transformPosts e posts w =
     (map (\<lambda>post. \<lparr> Post = post, IngestedAt = clock e (nows w), Source = ''placeholder_api'' \<rparr>) posts,
      w\<lparr>nows := nows w + 1\<rparr>)"
    by (rule transformPosts_map)
  show "length (fst (transformPosts e posts w)) = length posts"
    by (simp add: eq)
  fix i
  assume "i < length posts"
  then show "Post (fst (transformPosts e posts w) ! i) = posts ! i"
    and "IngestedAt (fst (transformPosts e posts w) ! i) = clock e (nows w)"
    and "Source (fst (transformPosts e posts w) ! i) = ''placeholder_api''"
    by (simp_all add: eq)
qed

text \<open>The input of \<open>TestService_transformPosts\<close>.\<close>

theorem transformPosts_stamps_witness:
  "fst (transformPosts (testEnv alwaysOk neverDone neverDone) [testPost1, testPost2]
         (freshWorld freshStore)) = [storedPost1, storedPost2]
   \<and> Post (fst (transformPosts (testEnv alwaysOk neverDone neverDone) [testPost1, testPost2]
         (freshWorld freshStore)) ! 1) = testPost2
   \<and> IngestedAt (fst (transformPosts (testEnv alwaysOk neverDone neverDone) [testPost1, testPost2]
         (freshWorld freshStore)) ! 0) =
     IngestedAt (fst (transformPosts (testEnv alwaysOk neverDone neverDone) [testPost1, testPost2]
         (freshWorld freshStore)) ! 1)"
  using transformPosts_stamps [of "testEnv alwaysOk neverDone neverDone" "[testPost1, testPost2]"
      "freshWorld freshStore"]
  by (simp add: testEnv_def freshWorld_def testClock_def storedPost1_def storedPost2_def)

section \<open>What a cycle does to the storage\<close>

lemma PutItemWithContext_frame:
  "t' \<noteq> t \<Longrightarrow> tables (snd (PutItemWithContext t k it c)) t' = tables c t'"
  by (simp add: PutItemWithContext_def Let_def split: option.splits)

text \<open>\<open>StorePosts\<close> of the DynamoDB backend writes to the table of the posts only.\<close>

lemma DynamoDB_StorePosts_frame:
  "tableName (snd (DynamoDB_StorePosts posts d)) = tableName d \<and>
   (\<forall>t. t \<noteq> tableName d \<longrightarrow>
      tables (client (snd (DynamoDB_StorePosts posts d))) t = tables (client d) t)"
proof (induction posts arbitrary: d)
  case Nil
  then show ?case by simp
next
  case (Cons post posts)
  show ?case
  proof (cases "PutItemWithContext (tableName d) (N (ID (Post post))) (PostItem post) (client d)")
    case (Pair r c1)
    have c1: "\<forall>t. t \<noteq> tableName d \<longrightarrow> tables c1 t = tables (client d) t"
      using PutItemWithContext_frame [of _ "tableName d" "N (ID (Post post))" "PostItem post" "client d"]
      by (simp add: Pair)
    show ?thesis
    proof (cases r)
      case None
      with Pair c1 Cons.IH [of "d\<lparr>client := c1\<rparr>"] show ?thesis
        by (simp add: MarshalPost_def)
    next
      case (Some err)
      with Pair c1 show ?thesis by (simp add: MarshalPost_def)
    qed
  qed
qed

lemma DynamoDB_StorePosts_statusRecord:
  "statusRecord (snd (DynamoDB_StorePosts posts d)) = statusRecord d"
  using DynamoDB_StorePosts_frame [of posts d] by (simp add: statusRecord_def)

lemma IngestData_calls:
  "calls (snd (IngestData s e w)) = calls w \<or>
   (\<exists>posts. calls (snd (IngestData s e w)) = calls w @ [CallStorePosts posts])"
  using fetchPosts_loop_frame [of s e 0 None w]
  by (auto simp: IngestData_def fetchPosts_def transformPosts_map Let_def
      split: prod.splits sum.splits option.splits)

lemma IngestData_StorePosts_only:
  "config s' = config s \<Longrightarrow> StorePosts (storage s') = StorePosts (storage s) \<Longrightarrow>
   IngestData s' e w = IngestData s e w"
proof -
  assume c: "config s' = config s" and st: "StorePosts (storage s') = StorePosts (storage s)"
  have f: "fetchPosts s' e w = fetchPosts s e w"
    unfolding fetchPosts_def using c by (rule fetchPosts_loop_config)
  show ?thesis
    unfolding IngestData_def f st by (rule refl)
qed

lemma IngestData_DynamoDB_frame:
  assumes "storage s = DynamoDB"
  shows "tableName (backend (snd (IngestData s e w))) = tableName (backend w) \<and>
         statusRecord (backend (snd (IngestData s e w))) = statusRecord (backend w) \<and>
         tables (client (backend (snd (IngestData s e w)))) (tableName (backend w) @ ''_status'') =
           tables (client (backend w)) (tableName (backend w) @ ''_status'')"
proof (cases "fetchPosts s e w")
  case (Pair r w1)
  from fetchPosts_loop_frame [of s e 0 None w] Pair
  have b: "backend w1 = backend w" by (simp add: fetchPosts_def)
  show ?thesis
  proof (cases r)
    case (Inl err)
    with Pair b show ?thesis by (simp add: IngestData_def)
  next
    case (Inr posts)
    let ?tp = "map (\<lambda>post. \<lparr> Post = post, IngestedAt = clock e (nows w1), Source = ''placeholder_api'' \<rparr>) posts"
    obtain r b where sp: "DynamoDB_StorePosts ?tp (backend w) = (r, b)"
      by (cases "DynamoDB_StorePosts ?tp (backend w)") blast
    have "StorePosts (storage s) ?tp (backend w) = (r, b)"
      using assms sp by (simp add: DynamoDB_def)
    with Pair Inr b have "backend (snd (IngestData s e w)) = b"
      by (cases r) (simp_all add: IngestData_def transformPosts_map)
    moreover from sp have "b = snd (DynamoDB_StorePosts ?tp (backend w))"
      by simp
    ultimately show ?thesis
      using DynamoDB_StorePosts_frame [of ?tp "backend w"]
        DynamoDB_StorePosts_statusRecord [of ?tp "backend w"]
      by simp
  qed
qed

text \<open>What \<open>GetIngestionStatus\<close> reads is a function of the status table as stored.\<close>

lemma DynamoDB_GetIngestionStatus_reads:
  "fault (client d) (issued (client d)) = None \<Longrightarrow>
   fst (DynamoDB_GetIngestionStatus d) =
     (case tables (client d) (tableName d @ ''_status'') of
        None \<Rightarrow> Inl (Wrap ''failed to get ingestion status'' ResourceNotFound)
      | Some rows \<Rightarrow>
          (case map_of rows (S ''ingestion_status'') of
             None \<Rightarrow> Inr \<lparr> LastSuccessfulRun = 0, LastAttempt = 0, Status = ''never_run'',
                           ErrorMessage = [], RecordsIngested = 0 \<rparr>
           | Some it \<Rightarrow>
               (case UnmarshalStatus it of
                  Inl err \<Rightarrow> Inl (Wrap ''failed to unmarshal ingestion status'' err)
                | Inr status \<Rightarrow> Inr status)))"
  by (simp add: DynamoDB_GetIngestionStatus_def GetItemWithContext_def Let_def
      split: option.splits sum.splits)

text \<open>
  C6. Whether a cycle succeeds or fails, the calls \<open>IngestData\<close> makes on the storage
  interface are none (the fetch failed) or the one call of \<open>StorePosts\<close>; its result is
  the same under any other implementation of the five remaining methods, so
  \<open>UpdateIngestionStatus\<close> is never called. With the DynamoDB backend the status table
  and the status record in it are the same after the cycle as before it: no cycle,
  failed or not, makes the status read as anything it did not read as before.
\<close>

theorem IngestData_frame:
  "(calls (snd (IngestData s e w)) = calls w \<or>
     (\<exists>posts. calls (snd (IngestData s e w)) = calls w @ [CallStorePosts posts]))
   \<and> (\<forall>s'. config s' = config s \<and> StorePosts (storage s') = StorePosts (storage s) \<longrightarrow>
         IngestData s' e w = IngestData s e w)
   \<and> (storage s = DynamoDB \<longrightarrow>
         tableName (backend (snd (IngestData s e w))) = tableName (backend w) \<and>
         statusRecord (backend (snd (IngestData s e w))) = statusRecord (backend w) \<and>
         tables (client (backend (snd (IngestData s e w)))) (tableName (backend w) @ ''_status'') =
           tables (client (backend w)) (tableName (backend w) @ ''_status''))"
  using IngestData_calls [of s e w] IngestData_StorePosts_only [of _ s e w]
    IngestData_DynamoDB_frame [of s e w]
  by blast

text \<open>
  The run of \<open>TestService_IngestData_StorageError\<close> on the store that
  \<open>NewDynamoDBStorage\<close> sets up: the API answers, the put fails. The cycle fails at the
  storage step after its one call of \<open>StorePosts\<close>; no status record is stored after
  it, and the status does not read as a success.
\<close>

theorem IngestData_frame_witness:
  "NewDynamoDBStorage None flakyService (Storage (Load composeRuntime)) = Inr flakyStore
   \<and> IngestData (testService 3) (testEnv alwaysOk neverDone neverDone) (freshWorld flakyStore) =
     (Some (Wrap ''failed to store posts''
            (WrapN ''failed to store post'' 1 (External ''RequestError: send request failed''))),
      \<lparr> requests = 1, selects = 0, waited = [], ticks = 0, nows = 1, stdout = [],
        calls = [CallStorePosts [storedPost1]],
        backend = \<lparr> client = \<lparr> tables = noTables(''ingested_data'' \<mapsto> []),
                               fault = fourthFault, issued = 4 \<rparr>,
                    tableName = ''ingested_data'' \<rparr> \<rparr>)
   \<and> statusRecord (backend (snd (IngestData (testService 3) (testEnv alwaysOk neverDone neverDone)
        (freshWorld flakyStore)))) = None
   \<and> fst (DynamoDB_GetIngestionStatus (backend (snd (IngestData (testService 3)
        (testEnv alwaysOk neverDone neverDone) (freshWorld flakyStore))))) =
     Inl (Wrap ''failed to get ingestion status'' ResourceNotFound)"
proof -
  let ?s = "testService 3"
  let ?e = "testEnv alwaysOk neverDone neverDone"
  let ?w = "freshWorld flakyStore"
  have run: "IngestData ?s ?e ?w =
     (Some (Wrap ''failed to store posts''
            (WrapN ''failed to store post'' 1 (External ''RequestError: send request failed''))),
      \<lparr> requests = 1, selects = 0, waited = [], ticks = 0, nows = 1, stdout = [],
        calls = [CallStorePosts [storedPost1]],
        backend = \<lparr> client = \<lparr> tables = noTables(''ingested_data'' \<mapsto> []),
                               fault = fourthFault, issued = 4 \<rparr>,
                    tableName = ''ingested_data'' \<rparr> \<rparr>)"
    apply (simp add: IngestData_def fetchPosts_def fetchPostsOnce_def fetchOutcome_def
        testService_def freshWorld_def flakyStore_def testEnv_def alwaysOk_def ok200_def
        decodeTest_def testPost1_def storedPost1_def)
    apply (simp add: transformPosts_map)
    apply (simp add: DynamoDB_def MarshalPost_def PutItemWithContext_def Let_def fourthFault_def
        testClock_def)
    done
  have next_ok: "fault (client (backend (snd (IngestData ?s ?e ?w))))
        (issued (client (backend (snd (IngestData ?s ?e ?w))))) = None"
    by (simp add: run fourthFault_def)
  have before: "statusRecord (backend ?w) = None"
    and no_table: "tables (client (backend ?w)) (tableName (backend ?w) @ ''_status'') = None"
    by (simp_all add: statusRecord_def freshWorld_def flakyStore_def noTables_def)
  have dyn: "storage ?s = DynamoDB" by (simp add: testService_def)
  note frame = IngestData_frame [THEN conjunct2, THEN conjunct2, rule_format, OF dyn, of ?e ?w]
  have after: "statusRecord (backend (snd (IngestData ?s ?e ?w))) = None"
    using frame before by (simp only:)
  have "tables (client (backend (snd (IngestData ?s ?e ?w))))
          (tableName (backend (snd (IngestData ?s ?e ?w))) @ ''_status'') = None"
    using frame no_table by (simp only:)
  with DynamoDB_GetIngestionStatus_reads [OF next_ok]
  have "fst (DynamoDB_GetIngestionStatus (backend (snd (IngestData ?s ?e ?w)))) =
      Inl (Wrap ''failed to get ingestion status'' ResourceNotFound)"
    by simp
  moreover have "TableName (Storage (Load composeRuntime)) = ''ingested_data''"
    by (simp add: Load_def getEnv_def composeRuntime_def composeEnv_def)
  then have "NewDynamoDBStorage None flakyService (Storage (Load composeRuntime)) = Inr flakyStore"
    unfolding NewDynamoDBStorage_def
    by (simp add: ensureTable_def DescribeTable_def CreateTable_def WaitUntilTableExists_def
        flakyService_def flakyStore_def noTables_def fourthFault_def Let_def)
  ultimately show ?thesis using after run by simp
qed

section \<open>Reading from the DynamoDB backend\<close>

lemma UnmarshalListOfMaps_length:
  "UnmarshalListOfMaps its = Inr posts \<Longrightarrow> length posts = length its"
  by (induction its arbitrary: posts) (auto split: sum.splits)

text \<open>What \<open>GetPosts\<close> does hold to: never more records than the limit.\<close>

lemma DynamoDB_GetPosts_limit:
  "fst (DynamoDB_GetPosts limit offset d) = Inr posts \<Longrightarrow> int (length posts) \<le> limit"
  by (auto simp: DynamoDB_GetPosts_def ScanWithContext_def Let_def
      dest!: UnmarshalListOfMaps_length split: if_splits option.splits sum.splits)

text \<open>The offset is a parameter that \<open>GetPosts\<close> never reads.\<close>

lemma DynamoDB_GetPosts_offset:
  "DynamoDB_GetPosts limit offset d = DynamoDB_GetPosts limit offset' d"
  by (simp add: DynamoDB_GetPosts_def)

lemma twoPostStore_facts:
  "tables (client twoPostStore) ''ingested_data'' =
     Some [(N 1, PostItem storedPost1), (N 2, PostItem storedPost2)]"
  "fault (client twoPostStore) = noFault"
  "issued (client twoPostStore) = 5"
  "tableName twoPostStore = ''ingested_data''"
  by (simp_all add: twoPostStore_def freshStore_def MarshalPost_def PutItemWithContext_def Let_def
      noFault_def noTables_def storedPost1_def storedPost2_def testPost1_def testPost2_def)

text \<open>
  C7. The claim says that \<open>GetPosts(limit, offset)\<close> skips the first \<open>offset\<close> records. On
  a table that holds the posts 1 and 2, a limit of 1 returns post 1 at offset 0 and the
  same post 1 at offset 1: the window does not move. The handler passes the offset it
  parsed and reports it back with the unmoved window.
\<close>

theorem GetPosts_offset_ignored:
  "fst (DynamoDB_GetPosts 1 0 twoPostStore) = Inr [storedPost1]
   \<and> fst (DynamoDB_GetPosts 1 1 twoPostStore) = Inr [storedPost1]
   \<and> fst (DynamoDB_GetPosts 2 0 twoPostStore) = Inr [storedPost1, storedPost2]
   \<and> fst (handlePosts composeRuntime DynamoDB ''1'' ''1'' twoPostStore) =
       PostsReply [storedPost1] 1 1 1"
  by (simp add: twoPostStore_facts DynamoDB_GetPosts_def ScanWithContext_def Let_def noFault_def
      UnmarshalPost_def handlePosts_def queryLimit_def queryOffset_def composeRuntime_def
      sampleAtoi_def DynamoDB_def)

section \<open>The ingestion status before any write\<close>

text \<open>\<open>ensureTable\<close> touches no table but the one named \<open>tableName\<close>.\<close>

lemma DescribeTable_tables: "tables (snd (DescribeTable t c)) = tables c"
  by (simp add: DescribeTable_def Let_def split: option.splits)

lemma CreateTable_frame: "t' \<noteq> t \<Longrightarrow> tables (snd (CreateTable t c)) t' = tables c t'"
  by (simp add: CreateTable_def Let_def split: option.splits)

lemma ensureTable_frame:
  "tableName (snd (ensureTable d)) = tableName d \<and>
   (\<forall>t. t \<noteq> tableName d \<longrightarrow> tables (client (snd (ensureTable d))) t = tables (client d) t)"
proof -
  obtain r1 c1 where d1: "DescribeTable (tableName d) (client d) = (r1, c1)"
    by (cases "DescribeTable (tableName d) (client d)") blast
  obtain r2 c2 where d2: "CreateTable (tableName d) c1 = (r2, c2)"
    by (cases "CreateTable (tableName d) c1") blast
  obtain r3 c3 where d3: "WaitUntilTableExists (tableName d) c2 = (r3, c3)"
    by (cases "WaitUntilTableExists (tableName d) c2") blast
  have t1: "tables c1 = tables (client d)"
    using DescribeTable_tables [of "tableName d" "client d"] by (simp add: d1)
  have t2: "\<forall>t. t \<noteq> tableName d \<longrightarrow> tables c2 t = tables c1 t"
    using CreateTable_frame [of _ "tableName d" c1] by (simp add: d2)
  have t3: "tables c3 = tables c2"
    using DescribeTable_tables [of "tableName d" c2] d3
    by (simp add: WaitUntilTableExists_def)
  show ?thesis
    using t1 t2 t3
    by (cases r1; cases r2) (simp_all add: ensureTable_def d1 d2 d3)
qed

text \<open>
  So the store that \<open>NewDynamoDBStorage\<close> returns has a status table only if the service
  had one before, and without that table every read and every write of the status fails.
\<close>

lemma NewDynamoDBStorage_status_table:
  assumes "NewDynamoDBStorage newSession c cfg = Inr d"
  shows "tableName d = TableName cfg \<and>
         tables (client d) (tableName d @ ''_status'') = tables c (TableName cfg @ ''_status'')"
proof -
  let ?d0 = "\<lparr> client = c, tableName = TableName cfg \<rparr>"
  from assms have "d = snd (ensureTable ?d0)"
    by (auto simp: NewDynamoDBStorage_def split: option.splits prod.splits)
  with ensureTable_frame [of ?d0] show ?thesis by simp
qed

lemma DynamoDB_GetIngestionStatus_no_table:
  "tables (client d) (tableName d @ ''_status'') = None \<Longrightarrow>
   fst (DynamoDB_GetIngestionStatus d) =
     Inl (Wrap ''failed to get ingestion status''
           (case fault (client d) (issued (client d)) of
              Some err \<Rightarrow> err | None \<Rightarrow> ResourceNotFound))"
  by (simp add: DynamoDB_GetIngestionStatus_def GetItemWithContext_def Let_def
      split: option.splits)

lemma DynamoDB_UpdateIngestionStatus_no_table:
  "tables (client d) (tableName d @ ''_status'') = None \<Longrightarrow>
   fst (DynamoDB_UpdateIngestionStatus status d) \<noteq> None \<and>
   tables (client (snd (DynamoDB_UpdateIngestionStatus status d))) = tables (client d)"
  by (simp add: DynamoDB_UpdateIngestionStatus_def MarshalStatus_def PutItemWithContext_def Let_def
      split: option.splits)

text \<open>
  Where the status table exists, a successful \<open>UpdateIngestionStatus\<close> is what writes
  the status record, and a successful \<open>GetIngestionStatus\<close> reads the status written
  or, with no record in the table, the default "never\_run".
\<close>

lemma DynamoDB_UpdateIngestionStatus_writes:
  "fault (client d) (issued (client d)) = None \<Longrightarrow>
   tables (client d) (tableName d @ ''_status'') = Some rows \<Longrightarrow>
   fst (DynamoDB_UpdateIngestionStatus status d) = None \<and>
   statusRecord (snd (DynamoDB_UpdateIngestionStatus status d)) = Some (StatusItem status)"
  by (simp add: DynamoDB_UpdateIngestionStatus_def MarshalStatus_def PutItemWithContext_def
      statusRecord_def Let_def update_conv')

lemma DynamoDB_GetIngestionStatus_written:
  "statusRecord d = Some (StatusItem status) \<Longrightarrow> fault (client d) (issued (client d)) = None \<Longrightarrow>
   fst (DynamoDB_GetIngestionStatus d) = Inr status"
  by (auto simp: DynamoDB_GetIngestionStatus_reads statusRecord_def UnmarshalStatus_def
      split: option.splits)

lemma DynamoDB_GetIngestionStatus_default:
  "tables (client d) (tableName d @ ''_status'') = Some rows \<Longrightarrow>
   map_of rows (S ''ingestion_status'') = None \<Longrightarrow>
   fault (client d) (issued (client d)) = None \<Longrightarrow>
   fst (DynamoDB_GetIngestionStatus d) =
     Inr \<lparr> LastSuccessfulRun = 0, LastAttempt = 0, Status = ''never_run'',
           ErrorMessage = [], RecordsIngested = 0 \<rparr>"
  by (simp add: DynamoDB_GetIngestionStatus_reads)

text \<open>
  C8. The claim says that \<open>GetIngestionStatus\<close>, called before any status record has
  been written, succeeds with the status "never\_run". On a table service that holds no
  table yet, \<open>NewDynamoDBStorage\<close> sets up the store with the table of the posts and no
  status table; no status record has been written, no request meets a fault, and
  \<open>GetIngestionStatus\<close> returns the error "failed to get ingestion status" around
  \<open>ResourceNotFoundException\<close> instead of the default status.
\<close>

theorem GetIngestionStatus_fresh_store:
  "NewDynamoDBStorage None noService (Storage (Load composeRuntime)) = Inr freshStore
   \<and> tables (client freshStore) ''ingested_data'' = Some []
   \<and> tables (client freshStore) ''ingested_data_status'' = None
   \<and> statusRecord freshStore = None
   \<and> fault (client freshStore) (issued (client freshStore)) = None
   \<and> fst (DynamoDB_GetIngestionStatus freshStore) =
       Inl (Wrap ''failed to get ingestion status'' ResourceNotFound)"
proof -
  have cfg: "TableName (Storage (Load composeRuntime)) = ''ingested_data''"
    by (simp add: Load_def getEnv_def composeRuntime_def composeEnv_def)
  have "NewDynamoDBStorage None noService (Storage (Load composeRuntime)) = Inr freshStore"
    unfolding NewDynamoDBStorage_def cfg
    by (simp add: ensureTable_def DescribeTable_def CreateTable_def WaitUntilTableExists_def
        noService_def freshStore_def noTables_def noFault_def Let_def)
  moreover have "tables (client freshStore) ''ingested_data'' = Some []"
    and "tables (client freshStore) ''ingested_data_status'' = None"
    and "statusRecord freshStore = None"
    and "fault (client freshStore) (issued (client freshStore)) = None"
    by (simp_all add: freshStore_def statusRecord_def noTables_def noFault_def)
  moreover have "fst (DynamoDB_GetIngestionStatus freshStore) =
       Inl (Wrap ''failed to get ingestion status'' ResourceNotFound)"
    by (simp add: DynamoDB_GetIngestionStatus_def GetItemWithContext_def Let_def freshStore_def
        noTables_def noFault_def)
  ultimately show ?thesis by simp
qed

section \<open>Malformed configuration values\<close>

text \<open>
  C9, as amended. For the four parsed variables (INGESTION\_INTERVAL, API\_TIMEOUT,
  RETRY\_COUNT, SERVER\_PORT) an unset or empty value and a value the parser rejects
  fall back to the default (5 minutes, 30 seconds, 3, 8080) and \<open>Load\<close> does not fail;
  a non-empty value the parser accepts is kept, whatever it is. STORAGE\_TYPE and
  API\_ENDPOINT are not checked by \<open>Load\<close>: an unset or empty value gives the default,
  any other value is kept as it is, and \<open>NewStorage\<close> fails with "unsupported storage
  type" for every type other than dynamodb, mongodb and postgresql.
\<close>

theorem Load_malformed:
  "(Getenv rt ''INGESTION_INTERVAL'' = [] \<or>
      isl (ParseDuration rt (Getenv rt ''INGESTION_INTERVAL'')) \<longrightarrow>
      Interval (Ingestion (Load rt)) = 5 * Minute)
   \<and> (\<forall>d. Getenv rt ''INGESTION_INTERVAL'' \<noteq> [] \<and>
         ParseDuration rt (Getenv rt ''INGESTION_INTERVAL'') = Inr d \<longrightarrow>
      Interval (Ingestion (Load rt)) = d)
   \<and> (Getenv rt ''API_TIMEOUT'' = [] \<or> isl (ParseDuration rt (Getenv rt ''API_TIMEOUT'')) \<longrightarrow>
      Timeout (Ingestion (Load rt)) = 30 * Second)
   \<and> (\<forall>d. Getenv rt ''API_TIMEOUT'' \<noteq> [] \<and>
         ParseDuration rt (Getenv rt ''API_TIMEOUT'') = Inr d \<longrightarrow>
      Timeout (Ingestion (Load rt)) = d)
   \<and> (Getenv rt ''RETRY_COUNT'' = [] \<or> isl (Atoi rt (Getenv rt ''RETRY_COUNT'')) \<longrightarrow>
      RetryCount (Ingestion (Load rt)) = 3)
   \<and> (\<forall>n. Getenv rt ''RETRY_COUNT'' \<noteq> [] \<and> Atoi rt (Getenv rt ''RETRY_COUNT'') = Inr n \<longrightarrow>
      RetryCount (Ingestion (Load rt)) = n)
   \<and> (Getenv rt ''SERVER_PORT'' = [] \<or> isl (Atoi rt (Getenv rt ''SERVER_PORT'')) \<longrightarrow>
      Port (Server (Load rt)) = 8080)
   \<and> (\<forall>n. Getenv rt ''SERVER_PORT'' \<noteq> [] \<and> Atoi rt (Getenv rt ''SERVER_PORT'') = Inr n \<longrightarrow>
      Port (Server (Load rt)) = n)
   \<and> Type (Storage (Load rt)) =
       (if Getenv rt ''STORAGE_TYPE'' = [] then ''dynamodb'' else Getenv rt ''STORAGE_TYPE'')
   \<and> APIEndpoint (Ingestion (Load rt)) =
       (if Getenv rt ''API_ENDPOINT'' = [] then ''https://jsonplaceholder.typicode.com/posts''
        else Getenv rt ''API_ENDPOINT'')
   \<and> (Type cfg \<noteq> ''dynamodb'' \<and> Type cfg \<noteq> ''mongodb'' \<and> Type cfg \<noteq> ''postgresql'' \<longrightarrow>
      NewStorage newDynamoDBStorage newMongoDBStorage newPostgreSQLStorage cfg =
        Inl (UnsupportedStorageType (Type cfg)))"
  by (auto simp: Load_def getEnv_def getEnvInt_def getEnvDuration_def NewStorage_def Let_def
      isl_def)

lemma sample_values:
  "Getenv malformedRuntime = malformedEnv" "Atoi malformedRuntime = sampleAtoi"
  "ParseDuration malformedRuntime = sampleParseDuration"
  "Getenv tunedRuntime = tunedEnv" "Atoi tunedRuntime = sampleAtoi"
  "ParseDuration tunedRuntime = sampleParseDuration"
  "malformedEnv ''INGESTION_INTERVAL'' = ''five minutes''"
  "malformedEnv ''API_TIMEOUT'' = ''30''" "malformedEnv ''RETRY_COUNT'' = ''three''"
  "malformedEnv ''SERVER_PORT'' = ''80 80''" "malformedEnv ''STORAGE_TYPE'' = ''s3''"
  "malformedEnv ''API_ENDPOINT'' = ''not a url''"
  "tunedEnv ''INGESTION_INTERVAL'' = ''0s''" "tunedEnv ''API_TIMEOUT'' = ''5m''"
  "tunedEnv ''RETRY_COUNT'' = ''0''" "tunedEnv ''SERVER_PORT'' = ''9090''"
  "tunedEnv ''STORAGE_TYPE'' = ''mongodb''"
  "tunedEnv ''API_ENDPOINT'' = ''http://localhost:9000/posts''"
  by (simp_all add: malformedRuntime_def tunedRuntime_def malformedEnv_def tunedEnv_def)

text \<open>
  Every variable malformed, and every variable well formed and away from its default
  (an interval of zero and a retry count of zero among the values that are kept).
\<close>

theorem Load_malformed_witness:
  "Interval (Ingestion (Load malformedRuntime)) = 5 * Minute
   \<and> Timeout (Ingestion (Load malformedRuntime)) = 30 * Second
   \<and> RetryCount (Ingestion (Load malformedRuntime)) = 3
   \<and> Port (Server (Load malformedRuntime)) = 8080
   \<and> Type (Storage (Load malformedRuntime)) = ''s3''
   \<and> APIEndpoint (Ingestion (Load malformedRuntime)) = ''not a url''
   \<and> NewStorage newTestStore noBackend noBackend (Storage (Load malformedRuntime)) =
       Inl (UnsupportedStorageType ''s3'')
   \<and> Interval (Ingestion (Load tunedRuntime)) = 0
   \<and> Timeout (Ingestion (Load tunedRuntime)) = 5 * Minute
   \<and> RetryCount (Ingestion (Load tunedRuntime)) = 0
   \<and> Port (Server (Load tunedRuntime)) = 9090
   \<and> Type (Storage (Load tunedRuntime)) = ''mongodb''
   \<and> APIEndpoint (Ingestion (Load tunedRuntime)) = ''http://localhost:9000/posts''"
proof -
  note bad = Load_malformed [where rt = malformedRuntime
      and cfg = "Storage (Load malformedRuntime)" and newDynamoDBStorage = newTestStore
      and newMongoDBStorage = noBackend and newPostgreSQLStorage = noBackend]
  from bad have kept: "Type (Storage (Load malformedRuntime)) = ''s3''"
    by (simp add: sample_values)
  from bad kept have first:
    "Interval (Ingestion (Load malformedRuntime)) = 5 * Minute
     \<and> Timeout (Ingestion (Load malformedRuntime)) = 30 * Second
     \<and> RetryCount (Ingestion (Load malformedRuntime)) = 3
     \<and> Port (Server (Load malformedRuntime)) = 8080
     \<and> APIEndpoint (Ingestion (Load malformedRuntime)) = ''not a url''
     \<and> NewStorage newTestStore noBackend noBackend (Storage (Load malformedRuntime)) =
         Inl (UnsupportedStorageType ''s3'')"
    by (simp add: sample_values sampleAtoi_def sampleParseDuration_def)
  note good = Load_malformed [where rt = tunedRuntime
      and cfg = "Storage (Load malformedRuntime)" and newDynamoDBStorage = newTestStore
      and newMongoDBStorage = noBackend and newPostgreSQLStorage = noBackend]
  from good have second:
    "Interval (Ingestion (Load tunedRuntime)) = 0
     \<and> Timeout (Ingestion (Load tunedRuntime)) = 5 * Minute
     \<and> RetryCount (Ingestion (Load tunedRuntime)) = 0
     \<and> Port (Server (Load tunedRuntime)) = 9090
     \<and> Type (Storage (Load tunedRuntime)) = ''mongodb''
     \<and> APIEndpoint (Ingestion (Load tunedRuntime)) = ''http://localhost:9000/posts''"
    by (simp add: sample_values sampleAtoi_def sampleParseDuration_def)
  from first kept second show ?thesis by simp
qed

text \<open>
  The claim as stated fails for STORAGE\_TYPE and API\_ENDPOINT: the type "s3" is not
  replaced by the default "dynamodb", and the construction of the storage fails.
\<close>

theorem Load_malformed_storage_type:
  "Type (Storage (Load malformedRuntime)) = ''s3''
   \<and> NewStorage newTestStore noBackend noBackend (Storage (Load malformedRuntime)) =
       Inl (UnsupportedStorageType ''s3'')
   \<and> APIEndpoint (Ingestion (Load malformedRuntime)) = ''not a url''"
  by (simp add: Load_def getEnv_def NewStorage_def malformedRuntime_def malformedEnv_def Let_def)

end
